theory Spec2Isabelle
  imports Complex_Main "HOL-Library.Word"
begin

section \<open>Images, exceptions and the event log\<close>

text \<open>
  A Python exception is the string \<open>str(e)\<close> it carries; a call that may raise returns
  \<open>exn + 'a\<close>, with \<open>Inl\<close> for the raise.
\<close>

type_synonym exn = string

definition andthen :: "exn + 'a \<Rightarrow> ('a \<Rightarrow> exn + 'b) \<Rightarrow> exn + 'b" where
  "andthen r k = (case r of Inl e \<Rightarrow> Inl e | Inr v \<Rightarrow> k v)"

text \<open>
  A numpy \<open>uint8\<close> array of shape \<open>(rows, cols, chans)\<close>: an OpenCV image.
  \<open>px a y x c\<close> is \<open>a[y, x, c]\<close>; only indices inside the shape are meaningful.
  A Python \<open>float\<close> is the rational number it denotes.
\<close>

record ndarray =
  rows :: nat
  cols :: nat
  chans :: nat
  px :: "nat \<Rightarrow> nat \<Rightarrow> nat \<Rightarrow> 8 word"

section \<open>The libraries\<close>

text \<open>
  The calls into OpenCV, numpy, PIL, dlib's drawing and the operating system that the
  processing modules make. They are not code of this package, so they are parameters: every
  theorem holds for whatever they compute. \<open>rnd\<close> rounds a rational to the nearest
  \<open>float\<close>; an arithmetic operation on floats is the exact operation followed by
  \<open>rnd\<close>. A call that can raise returns \<open>exn + 'a\<close>.
\<close>

record lib =
  rnd :: "rat \<Rightarrow> rat"
  float_pow :: "rat \<Rightarrow> rat \<Rightarrow> rat"
  imread :: "string \<Rightarrow> ndarray option"
  bgr2rgb :: "ndarray \<Rightarrow> exn + ndarray"
  rgb2bgr :: "ndarray \<Rightarrow> exn + ndarray"
  rgba2bgra :: "ndarray \<Rightarrow> exn + ndarray"
  bgr2gray :: "ndarray \<Rightarrow> exn + ndarray"
  bgr2bgra :: "ndarray \<Rightarrow> exn + ndarray"
  bgr2lab :: "ndarray \<Rightarrow> exn + ndarray"
  lab2bgr :: "ndarray \<Rightarrow> exn + ndarray"
  clahe_apply :: "ndarray \<Rightarrow> exn + ndarray"
  addWeighted :: "ndarray \<Rightarrow> rat \<Rightarrow> ndarray \<Rightarrow> rat \<Rightarrow> exn + ndarray"
  bilateralFilter :: "ndarray \<Rightarrow> exn + ndarray"
  filter2D :: "ndarray \<Rightarrow> exn + ndarray"
  pil_contrast :: "ndarray \<Rightarrow> rat \<Rightarrow> exn + ndarray"
  pil_color :: "ndarray \<Rightarrow> rat \<Rightarrow> exn + ndarray"
  ellipse :: "ndarray \<Rightarrow> int \<times> int \<Rightarrow> int \<times> int \<Rightarrow> exn + ndarray"
  GaussianBlur :: "ndarray \<Rightarrow> int \<Rightarrow> int \<Rightarrow> exn + ndarray"
  multiply :: "8 word \<Rightarrow> 8 word \<Rightarrow> rat \<Rightarrow> 8 word"
  lanczos4 :: "ndarray \<Rightarrow> int \<times> int \<Rightarrow> exn + ndarray"
  warp_rotate :: "ndarray \<Rightarrow> rat \<times> rat \<Rightarrow> rat \<Rightarrow> rat \<Rightarrow> exn + ndarray"
  dirname :: "string \<Rightarrow> string"
  stem :: "string \<Rightarrow> string"
  join :: "string \<Rightarrow> string \<Rightarrow> string"
  makedirs :: "string \<Rightarrow> exn + unit"
  imwrite_png :: "string \<Rightarrow> ndarray \<Rightarrow> exn + int"
  imwrite_jpeg :: "string \<Rightarrow> ndarray \<Rightarrow> int \<Rightarrow> exn + int"

text \<open>
  \<open>imread\<close> is \<open>cv2.imread\<close>, which gives \<open>None\<close> for a file it cannot read.
  \<open>float_pow x y\<close> is \<open>x ** y\<close>. \<open>multiply a b scale\<close> is one element of
  \<open>cv2.multiply(..., scale=scale)\<close>. \<open>lanczos4\<close> is the interpolation of
  \<open>cv2.resize\<close> once its size arguments are accepted. \<open>warp_rotate img center dy dx\<close>
  is \<open>cv2.warpAffine\<close> with the matrix of \<open>cv2.getRotationMatrix2D\<close> for the angle
  \<open>degrees(arctan2(dy, dx))\<close>. \<open>imwrite_png\<close> and \<open>imwrite_jpeg\<close> write the file
  and give the size \<open>os.path.getsize\<close> reports for it afterwards.
\<close>

text \<open>Python's \<open>a / b\<close> on integers, which raises when \<open>b\<close> is 0.\<close>

definition truediv :: "lib \<Rightarrow> int \<Rightarrow> int \<Rightarrow> exn + rat" where
  "truediv L a b = (if b = 0 then Inl ''division by zero'' else Inr (rnd L (of_int a / of_int b)))"

text \<open>Python's \<open>int(x)\<close> on a float: truncation towards zero.\<close>

definition trunc :: "rat \<Rightarrow> int" where
  "trunc x = (if 0 \<le> x then \<lfloor>x\<rfloor> else \<lceil>x\<rceil>)"

text \<open>
  The bounds of the Python slice \<open>a[start:stop]\<close> on an axis of length \<open>n\<close>: the first
  index and the number of elements.
\<close>

definition slice_index :: "nat \<Rightarrow> int \<Rightarrow> nat" where
  "slice_index n i = (if i < 0 then nat (max 0 (i + int n)) else min (nat i) n)"

definition py_slice :: "nat \<Rightarrow> int \<Rightarrow> int \<Rightarrow> nat \<times> nat" where
  "py_slice n start stop = (slice_index n start, slice_index n stop - slice_index n start)"

section \<open>face\_detection.py\<close>

record rectangle =
  rect_left :: int
  rect_top :: int
  rect_right :: int
  rect_bottom :: int

text \<open>
  \<open>dlib.rectangle\<close>; \<open>rect_width\<close> and \<open>rect_height\<close> are its methods \<open>width()\<close>
  and \<open>height()\<close>, which are 0 on an empty rectangle.
\<close>

definition is_empty :: "rectangle \<Rightarrow> bool" where
  "is_empty r = (rect_bottom r < rect_top r \<or> rect_right r < rect_left r)"

definition rect_width :: "rectangle \<Rightarrow> int" where
  "rect_width r = (if is_empty r then 0 else rect_right r - rect_left r + 1)"

definition rect_height :: "rectangle \<Rightarrow> int" where
  "rect_height r = (if is_empty r then 0 else rect_bottom r - rect_top r + 1)"

text \<open>A \<open>dlib.full_object_detection\<close> is the list of its parts.\<close>

type_synonym landmarks = "(int \<times> int) list"

text \<open>
  \<open>face_detector\<close> is dlib's frontal face detector, called on the grey image with the
  number of upsamplings; \<open>predictor\<close> is the shape predictor, when one was loaded.
\<close>

record FaceDetector =
  face_detector :: "ndarray \<Rightarrow> nat \<Rightarrow> exn + rectangle list"
  predictor :: "(ndarray \<Rightarrow> rectangle \<Rightarrow> exn + landmarks) option"

definition has_predictor :: "FaceDetector \<Rightarrow> bool" where
  "has_predictor fd = (predictor fd \<noteq> None)"

text \<open>
  \<open>sorted(faces, key=..., reverse=True)\<close> is stable, and so is \<open>sort_key\<close> on the
  negated key.
\<close>

definition detect_face :: "lib \<Rightarrow> FaceDetector \<Rightarrow> ndarray \<Rightarrow> exn + rectangle option" where
  "detect_face L fd img =
     (case bgr2gray L img of
        Inl e \<Rightarrow> Inl e
      | Inr gray \<Rightarrow>
          (case face_detector fd gray 1 of
             Inl e \<Rightarrow> Inl e
           | Inr faces \<Rightarrow>
               if length faces = 0 then Inr None
               else
                 (let faces =
                    (if length faces > 1
                     then sort_key (\<lambda>r. - (rect_width r * rect_height r)) faces
                     else faces)
                  in Inr (Some (hd faces)))))"

definition get_landmarks ::
  "lib \<Rightarrow> FaceDetector \<Rightarrow> ndarray \<Rightarrow> rectangle \<Rightarrow> exn + landmarks option" where
  "get_landmarks L fd img face_rect =
     (case predictor fd of
        None \<Rightarrow> Inr None
      | Some p \<Rightarrow>
          (case bgr2gray L img of
             Inl e \<Rightarrow> Inl e
           | Inr gray \<Rightarrow>
               (case p gray face_rect of
                  Inl e \<Rightarrow> Inl e
                | Inr shape \<Rightarrow> Inr (Some shape))))"

text \<open>\<open>landmarks.part(i)\<close> for \<open>i\<close> in \<open>range(lo, hi)\<close>; a missing part raises.\<close>

definition parts :: "landmarks \<Rightarrow> nat \<Rightarrow> nat \<Rightarrow> exn + (int \<times> int) list" where
  "parts lm lo hi =
     (if hi \<le> length lm then Inr (map (\<lambda>i. lm ! i) [lo..<hi]) else Inl ''Index out of range'')"

text \<open>\<open>np.mean(points, axis=0)\<close> on a list of integer points.\<close>

definition mean_point :: "lib \<Rightarrow> (int \<times> int) list \<Rightarrow> rat \<times> rat" where
  "mean_point L ps =
     (rnd L (of_int (sum_list (map fst ps)) / of_nat (length ps)),
      rnd L (of_int (sum_list (map snd ps)) / of_nat (length ps)))"

definition align_face :: "lib \<Rightarrow> ndarray \<Rightarrow> landmarks \<Rightarrow> exn + ndarray" where
  "align_face L img lm =
     (case parts lm 36 42 of
        Inl e \<Rightarrow> Inl e
      | Inr left_pts \<Rightarrow>
          (case parts lm 42 48 of
             Inl e \<Rightarrow> Inl e
           | Inr right_pts \<Rightarrow>
               (let left_eye = mean_point L left_pts;
                    right_eye = mean_point L right_pts;
                    dx = rnd L (fst right_eye - fst left_eye);
                    dy = rnd L (snd right_eye - snd left_eye);
                    center = (rnd L (rnd L (fst left_eye + fst right_eye) / 2),
                              rnd L (rnd L (snd left_eye + snd right_eye) / 2))
                in warp_rotate L img center dy dx)))"

definition crop_face :: "lib \<Rightarrow> ndarray \<Rightarrow> rectangle \<Rightarrow> rat \<Rightarrow> ndarray" where
  "crop_face L img face_rect margin =
     (let h = rows img; w = cols img;
          face_w = rect_width face_rect;
          face_h = rect_height face_rect;
          margin_w = trunc (rnd L (of_int face_w * margin));
          margin_h = trunc (rnd L (of_int face_h * margin));
          x1 = max 0 (rect_left face_rect - margin_w);
          y1 = max 0 (rect_top face_rect - trunc (rnd L (of_int margin_h * (3 / 2))));
          x2 = min (int w) (rect_right face_rect + margin_w);
          y2 = min (int h) (rect_bottom face_rect + margin_h);
          ys = py_slice h y1 y2;
          xs = py_slice w x1 x2
      in \<lparr>rows = snd ys, cols = snd xs, chans = chans img,
          px = (\<lambda>y x c. px img (fst ys + y) (fst xs + x) c)\<rparr>)"

section \<open>background.py\<close>

text \<open>\<open>session\<close> is \<open>rembg.remove\<close> with the model session, between the PIL conversions.\<close>

record BackgroundRemover =
  session :: "ndarray \<Rightarrow> exn + ndarray"

definition remove_background :: "lib \<Rightarrow> BackgroundRemover \<Rightarrow> ndarray \<Rightarrow> exn + ndarray" where
  "remove_background L br img =
     (case bgr2rgb L img of
        Inl e \<Rightarrow> Inl e
      | Inr image_rgb \<Rightarrow>
          (case session br image_rgb of
             Inl e \<Rightarrow> Inl e
           | Inr image_rgba \<Rightarrow> rgba2bgra L image_rgba))"

section \<open>face\_enhancement.py\<close>

text \<open>
  The facexlib \<open>FaceRestoreHelper\<close> as \<open>FaceEnhancer.enhance\<close> uses it.
  \<open>crop_faces\<close> stands for \<open>clean_all\<close>, \<open>read_image\<close>,
  \<open>get_face_landmarks_5\<close> and \<open>align_warp_face\<close>, and gives \<open>cropped_faces\<close>;
  \<open>paste_faces\<close> stands for \<open>get_inverse_affine\<close> and
  \<open>paste_faces_to_input_image\<close> on the restored faces collected by
  \<open>add_restored_face\<close>.
\<close>

record FaceRestoreHelper =
  crop_faces :: "ndarray \<Rightarrow> exn + ndarray list"
  paste_faces :: "ndarray \<Rightarrow> ndarray list \<Rightarrow> exn + ndarray"

text \<open>
  \<open>codeformer_net\<close> is the network with the tensor conversion around it (lines 124 to 131):
  a cropped face and the fidelity weight give the restored face, or raise.
\<close>

record FaceEnhancer =
  codeformer_net :: "(ndarray \<Rightarrow> rat \<Rightarrow> exn + ndarray) option"
  face_helper :: "FaceRestoreHelper option"

definition is_available :: "FaceEnhancer \<Rightarrow> bool" where
  "is_available fe = (codeformer_net fe \<noteq> None \<and> face_helper fe \<noteq> None)"

text \<open>The loop of lines 122 to 135: each cropped face is restored and converted in turn.\<close>

fun restore_faces ::
  "(ndarray \<Rightarrow> rat \<Rightarrow> exn + ndarray) \<Rightarrow> (ndarray \<Rightarrow> exn + ndarray) \<Rightarrow> rat \<Rightarrow>
   ndarray list \<Rightarrow> exn + ndarray list" where
  "restore_faces net cvt w [] = Inr []"
| "restore_faces net cvt w (cropped_face # rest) =
     (case net cropped_face w of
        Inl e \<Rightarrow> Inl e
      | Inr restored_face \<Rightarrow>
          (case cvt restored_face of
             Inl e \<Rightarrow> Inl e
           | Inr restored_bgr \<Rightarrow>
               (case restore_faces net cvt w rest of
                  Inl e \<Rightarrow> Inl e
                | Inr done \<Rightarrow> Inr (restored_bgr # done))))"

text \<open>
  The body of the \<open>try\<close> of \<open>FaceEnhancer.enhance\<close> (lines 100 to 146), entered only
  when the enhancer is available.
\<close>

definition FaceEnhancer_enhance_try :: "lib \<Rightarrow> FaceEnhancer \<Rightarrow> ndarray \<Rightarrow> rat \<Rightarrow> exn + ndarray" where
  "FaceEnhancer_enhance_try L fe img fidelity_weight =
     (case (codeformer_net fe, face_helper fe) of
        (Some net, Some helper) \<Rightarrow>
          (let img_original = img in
           case bgr2rgb L img of
             Inl e \<Rightarrow> Inl e
           | Inr img_rgb \<Rightarrow>
               (case crop_faces helper img_rgb of
                  Inl e \<Rightarrow> Inl e
                | Inr cropped_faces \<Rightarrow>
                    if length cropped_faces = 0 then Inr img_original
                    else
                      (case restore_faces net (rgb2bgr L) fidelity_weight cropped_faces of
                         Inl e \<Rightarrow> Inl e
                       | Inr restored \<Rightarrow>
                           (case rgb2bgr L img_rgb of
                              Inl e \<Rightarrow> Inl e
                            | Inr img_bgr \<Rightarrow> paste_faces helper img_bgr restored))))
      | _ \<Rightarrow> Inl ''NoneType object is not callable'')"

text \<open>
  \<open>FaceEnhancer.enhance\<close>: the availability test, then the \<open>try\<close> whose handler
  returns the argument.
\<close>

definition FaceEnhancer_enhance :: "lib \<Rightarrow> FaceEnhancer \<Rightarrow> ndarray \<Rightarrow> rat \<Rightarrow> exn + ndarray" where
  "FaceEnhancer_enhance L fe img fidelity_weight =
     (if \<not> is_available fe then Inr img
      else
        (case FaceEnhancer_enhance_try L fe img fidelity_weight of
           Inl e \<Rightarrow> Inr img
         | Inr restored_img \<Rightarrow> Inr restored_img))"

section \<open>photo\_enhancement.py\<close>

text \<open>
  One channel of an array, as the array of shape \<open>(rows, cols, 1)\<close>; \<open>np.mean\<close> of a
  channel, which is \<open>nan\<close> (here \<open>None\<close>) on an empty array; the cast of a float to
  \<open>uint8\<close> that numpy applies when a float array is stored into a \<open>uint8\<close> array.
\<close>

definition plane :: "ndarray \<Rightarrow> nat \<Rightarrow> ndarray" where
  "plane a c = \<lparr>rows = rows a, cols = cols a, chans = 1, px = (\<lambda>y x k. px a y x c)\<rparr>"

definition channel_sum :: "ndarray \<Rightarrow> nat \<Rightarrow> int" where
  "channel_sum a c = (\<Sum>y<rows a. \<Sum>x<cols a. uint (px a y x c))"

definition np_mean :: "lib \<Rightarrow> ndarray \<Rightarrow> nat \<Rightarrow> rat option" where
  "np_mean L a c =
     (if rows a * cols a = 0 then None
      else Some (rnd L (of_int (channel_sum a c) / of_nat (rows a * cols a))))"

definition to_uint8 :: "rat \<Rightarrow> 8 word" where
  "to_uint8 x = word_of_int (trunc x)"

text \<open>\<open>cv2.merge\<close> of three planes and \<open>np.dstack\<close> of an image and a plane.\<close>

definition merge3 :: "ndarray \<Rightarrow> ndarray \<Rightarrow> ndarray \<Rightarrow> exn + ndarray" where
  "merge3 l a b =
     (if rows a = rows l \<and> cols a = cols l \<and> rows b = rows l \<and> cols b = cols l
      then Inr \<lparr>rows = rows l, cols = cols l, chans = 3,
                px = (\<lambda>y x c. if c = 0 then px l y x 0 else if c = 1 then px a y x 0
                               else px b y x 0)\<rparr>
      else Inl ''cv2.merge: sizes of the planes differ'')"

definition dstack :: "ndarray \<Rightarrow> ndarray \<Rightarrow> exn + ndarray" where
  "dstack bgr alpha =
     (if rows bgr = rows alpha \<and> cols bgr = cols alpha
      then Inr \<lparr>rows = rows bgr, cols = cols bgr, chans = chans bgr + 1,
                px = (\<lambda>y x c. if c < chans bgr then px bgr y x c else px alpha y x 0)\<rparr>
      else Inl ''all the input array dimensions except for the concatenation axis must match exactly'')"

text \<open>The gamma table of lines 96 to 99 and \<open>cv2.LUT\<close>.\<close>

definition gamma_table :: "lib \<Rightarrow> rat \<Rightarrow> 8 word \<Rightarrow> 8 word" where
  "gamma_table L inv_gamma i =
     to_uint8 (rnd L (float_pow L (rnd L (of_int (uint i) / 255)) inv_gamma * 255))"

definition LUT :: "ndarray \<Rightarrow> (8 word \<Rightarrow> 8 word) \<Rightarrow> ndarray" where
  "LUT a table = a\<lparr>px := (\<lambda>y x c. table (px a y x c))\<rparr>"

text \<open>Lines 76 to 100 of \<open>_auto_exposure\<close>: the correction of the lightness plane.\<close>

definition correct_lightness :: "lib \<Rightarrow> ndarray \<Rightarrow> exn + ndarray" where
  "correct_lightness L l =
     (case np_mean L l 0 of
        None \<Rightarrow> Inr l
      | Some mean_brightness \<Rightarrow>
          (let brightness_diff = rnd L (140 - mean_brightness) in
           if \<bar>brightness_diff\<bar> > 10 then
             andthen (clahe_apply L l) (\<lambda>l_clahe.
               let alpha_blend = min (rnd L (\<bar>brightness_diff\<bar> / 50)) (rnd L (7 / 10)) in
               andthen (addWeighted L l (rnd L (1 - alpha_blend)) l_clahe alpha_blend) (\<lambda>l.
                 if brightness_diff > 20 then
                   (let gamma = min (rnd L (1 + rnd L (brightness_diff / 200))) (rnd L (14 / 10));
                        inv_gamma = rnd L (1 / gamma)
                    in Inr (LUT l (gamma_table L inv_gamma)))
                 else Inr l))
           else Inr l))"

definition auto_exposure :: "lib \<Rightarrow> ndarray \<Rightarrow> exn + ndarray" where
  "auto_exposure L img =
     andthen (bgr2lab L img) (\<lambda>lab.
       if chans lab < 3 then Inl ''not enough values to unpack''
       else if chans lab > 3 then Inl ''too many values to unpack''
       else
         andthen (correct_lightness L (plane lab 0)) (\<lambda>l.
           andthen (merge3 l (plane lab 1) (plane lab 2)) (lab2bgr L)))"

text \<open>
  \<open>_auto_white_balance\<close>. A mean that is \<open>nan\<close> fails the test \<open>avg > 0\<close>, so the
  scale is 1.
\<close>

definition wb_scale :: "lib \<Rightarrow> rat option \<Rightarrow> rat option \<Rightarrow> rat" where
  "wb_scale L gray avg =
     min (case (gray, avg) of
            (Some g, Some a) \<Rightarrow> if a > 0 then rnd L (g / a) else 1
          | _ \<Rightarrow> 1)
         (3 / 2)"

definition clip :: "rat \<Rightarrow> rat \<Rightarrow> rat \<Rightarrow> rat" where
  "clip x lo hi = min hi (max lo x)"

definition auto_white_balance :: "lib \<Rightarrow> ndarray \<Rightarrow> exn + ndarray" where
  "auto_white_balance L img =
     (if chans img < 3 then Inl ''index is out of bounds for axis 2''
      else
        (let avg_b = np_mean L img 0;
             avg_g = np_mean L img 1;
             avg_r = np_mean L img 2;
             gray = (case (avg_b, avg_g, avg_r) of
                       (Some b, Some g, Some r) \<Rightarrow> Some (rnd L (rnd L (rnd L (b + g) + r) / 3))
                     | _ \<Rightarrow> None);
             scale = (\<lambda>c. wb_scale L gray (if c = 0 then avg_b else if c = 1 then avg_g else avg_r))
         in Inr (img\<lparr>px := (\<lambda>y x c.
                   if c < 3
                   then to_uint8 (clip (rnd L (of_int (uint (px img y x c)) * scale c)) 0 255)
                   else px img y x c)\<rparr>)))"

text \<open>\<open>PhotoEnhancer.enhance\<close>.\<close>

definition PhotoEnhancer_enhance :: "lib \<Rightarrow> ndarray \<Rightarrow> exn + ndarray" where
  "PhotoEnhancer_enhance L img =
     (let bgr = img\<lparr>chans := min 3 (chans img)\<rparr>;
          alpha = (if chans img = 4 then Some (plane img 3) else None)
      in
        andthen (auto_exposure L bgr) (\<lambda>bgr.
        andthen (bilateralFilter L bgr) (\<lambda>bgr.
        andthen (auto_white_balance L bgr) (\<lambda>bgr.
        andthen (filter2D L bgr) (\<lambda>bgr.
        andthen (bgr2rgb L bgr) (\<lambda>rgb.
        andthen (pil_contrast L rgb (rnd L (115 / 100))) (\<lambda>pil_img.
        andthen (pil_color L pil_img (rnd L (115 / 100))) (\<lambda>pil_img.
        andthen (rgb2bgr L pil_img) (\<lambda>bgr.
          case alpha of
            Some a \<Rightarrow> dstack bgr a
          | None \<Rightarrow> Inr bgr)))))))))"

text \<open>
  \<open>OvalMask.apply\<close>, on an array with three axes. The mask starts as zeros of shape
  \<open>(h, w)\<close>; \<open>bgra[:, :, 3]\<close> raises when there is no fourth channel, and
  \<open>cv2.multiply\<close> when the two planes differ in size.
\<close>

definition zeros :: "nat \<Rightarrow> nat \<Rightarrow> nat \<Rightarrow> ndarray" where
  "zeros h w c = \<lparr>rows = h, cols = w, chans = c, px = (\<lambda>y x k. 0)\<rparr>"

definition OvalMask_apply :: "lib \<Rightarrow> ndarray \<Rightarrow> int \<Rightarrow> exn + ndarray" where
  "OvalMask_apply L img feather =
     (let h = rows img; w = cols img in
      andthen (if chans img = 3 then bgr2bgra L img else Inr img) (\<lambda>bgra.
        let mask = zeros h w 1;
            center_x = int w div 2;
            center_y = int h div 2;
            radius_x = trunc (rnd L (of_nat w * rnd L (48 / 100)));
            radius_y = trunc (rnd L (of_nat h * rnd L (48 / 100)))
        in
          andthen (ellipse L mask (center_x, center_y) (radius_x, radius_y)) (\<lambda>mask.
          andthen (GaussianBlur L mask feather (feather div 2)) (\<lambda>mask_blurred.
            if chans bgra < 4 then Inl ''index 3 is out of bounds for axis 2''
            else if rows mask_blurred \<noteq> rows bgra \<or> cols mask_blurred \<noteq> cols bgra
                    \<or> chans mask_blurred \<noteq> 1
            then Inl ''cv2.multiply: sizes of the input arguments do not match''
            else Inr (bgra\<lparr>px := (\<lambda>y x c.
                        if c = 3
                        then multiply L (px bgra y x 3) (px mask_blurred y x 0) (rnd L (1 / 255))
                        else px bgra y x c)\<rparr>)))))"

text \<open>
  \<open>cv2.resize\<close> checks its arguments before it interpolates: the source must not be empty,
  and a destination size with a component that is not positive counts as absent, which the
  default scale factors of 0 do not make up for.
\<close>

definition cv2_resize :: "lib \<Rightarrow> ndarray \<Rightarrow> int \<times> int \<Rightarrow> exn + ndarray" where
  "cv2_resize L src dsize =
     (if rows src = 0 \<or> cols src = 0 then Inl ''(-215:Assertion failed) !ssize.empty()''
      else if fst dsize \<le> 0 \<or> snd dsize \<le> 0 then Inl ''(-215:Assertion failed) inv_scale_x > 0''
      else lanczos4 L src dsize)"

text \<open>\<open>np.zeros\<close> and \<open>np.full\<close> for a canvas: a negative dimension raises.\<close>

definition new_canvas :: "int \<Rightarrow> int \<Rightarrow> nat \<Rightarrow> (nat \<Rightarrow> 8 word) \<Rightarrow> exn + ndarray" where
  "new_canvas target_h target_w c fill =
     (if target_h < 0 \<or> target_w < 0 then Inl ''negative dimensions are not allowed''
      else Inr \<lparr>rows = nat target_h, cols = nat target_w, chans = c,
                px = (\<lambda>y x k. fill k)\<rparr>)"

text \<open>
  The assignment \<open>canvas[y0:y0+ly, x0:x0+lx] = src\<close>, with numpy's broadcasting: an axis of
  the source fits when it has the length of the target's or length 1.
\<close>

definition broadcastable :: "nat \<Rightarrow> nat \<Rightarrow> bool" where
  "broadcastable s t = (s = t \<or> s = 1)"

definition bidx :: "nat \<Rightarrow> nat \<Rightarrow> nat" where
  "bidx s i = (if s = 1 then 0 else i)"

definition in_block :: "nat \<times> nat \<Rightarrow> nat \<times> nat \<Rightarrow> nat \<Rightarrow> nat \<Rightarrow> bool" where
  "in_block ys xs y x =
     (fst ys \<le> y \<and> y < fst ys + snd ys \<and> fst xs \<le> x \<and> x < fst xs + snd xs)"

definition assign_block ::
  "ndarray \<Rightarrow> nat \<times> nat \<Rightarrow> nat \<times> nat \<Rightarrow> ndarray \<Rightarrow> exn + ndarray" where
  "assign_block canvas ys xs src =
     (if broadcastable (rows src) (snd ys) \<and> broadcastable (cols src) (snd xs)
         \<and> broadcastable (chans src) (chans canvas)
      then Inr (canvas\<lparr>px := (\<lambda>y x c.
                  if in_block ys xs y x
                  then px src (bidx (rows src) (y - fst ys)) (bidx (cols src) (x - fst xs))
                         (bidx (chans src) c)
                  else px canvas y x c)\<rparr>)
      else Inl ''could not broadcast input array'')"

text \<open>
  Lines 229 to 234: the three colour channels of the block become
  \<open>canvas * (1 - alpha) + resized * alpha\<close>, computed in floats and cast back.
\<close>

definition blend :: "lib \<Rightarrow> 8 word \<Rightarrow> 8 word \<Rightarrow> 8 word \<Rightarrow> 8 word" where
  "blend L back front a =
     (let alpha = rnd L (of_int (uint a) / 255) in
      to_uint8 (rnd L (rnd L (of_int (uint back) * rnd L (1 - alpha))
                       + rnd L (of_int (uint front) * alpha))))"

definition composite_block ::
  "lib \<Rightarrow> ndarray \<Rightarrow> nat \<times> nat \<Rightarrow> nat \<times> nat \<Rightarrow> ndarray \<Rightarrow> exn + ndarray" where
  "composite_block L canvas ys xs resized =
     (if broadcastable (rows resized) (snd ys) \<and> broadcastable (cols resized) (snd xs)
      then Inr (canvas\<lparr>px := (\<lambda>y x c.
                  if in_block ys xs y x \<and> c < 3
                  then blend L (px canvas y x c)
                         (px resized (bidx (rows resized) (y - fst ys))
                            (bidx (cols resized) (x - fst xs)) c)
                         (px resized (bidx (rows resized) (y - fst ys))
                            (bidx (cols resized) (x - fst xs)) 3)
                  else px canvas y x c)\<rparr>)
      else Inl ''operands could not be broadcast together'')"

type_synonym color = "8 word \<times> 8 word \<times> 8 word"

definition color_at :: "color \<Rightarrow> nat \<Rightarrow> 8 word" where
  "color_at bg c = (case bg of (c0, c1, c2) \<Rightarrow> if c = 0 then c0 else if c = 1 then c1 else c2)"

text \<open>\<open>ImageResizer.resize_with_padding\<close>; \<open>target_size\<close> is \<open>(width, height)\<close>.\<close>

definition resize_with_padding ::
  "lib \<Rightarrow> ndarray \<Rightarrow> int \<times> int \<Rightarrow> color \<Rightarrow> bool \<Rightarrow> exn + ndarray" where
  "resize_with_padding L img target_sz background_color use_transparent =
     (let h = rows img; w = cols img;
          target_w = fst target_sz; target_h = snd target_sz
      in
        andthen (truediv L target_w (int w)) (\<lambda>ratio_w.
        andthen (truediv L target_h (int h)) (\<lambda>ratio_h.
          let ratio = min ratio_w ratio_h;
              new_w = trunc (rnd L (of_nat w * ratio));
              new_h = trunc (rnd L (of_nat h * ratio))
          in
            andthen (cv2_resize L img (new_w, new_h)) (\<lambda>resized.
            andthen (if use_transparent then new_canvas target_h target_w 4 (\<lambda>k. 0)
                     else new_canvas target_h target_w 3 (color_at background_color)) (\<lambda>canvas.
              let y_offset = (target_h - new_h) div 2;
                  x_offset = (target_w - new_w) div 2;
                  ys = py_slice (rows canvas) y_offset (y_offset + new_h);
                  xs = py_slice (cols canvas) x_offset (x_offset + new_w)
              in
                if chans resized = 4 then
                  (if use_transparent then assign_block canvas ys xs resized
                   else composite_block L canvas ys xs resized)
                else
                  (if use_transparent
                   then andthen (bgr2bgra L resized) (assign_block canvas ys xs)
                   else assign_block canvas ys xs resized))))))"

section \<open>processor.py\<close>

text \<open>The dictionary \<open>face_position\<close> with its keys \<open>x\<close>, \<open>y\<close>, \<open>width\<close>, \<open>height\<close>.\<close>

record position =
  pos_x :: int
  pos_y :: int
  pos_width :: int
  pos_height :: int

record ProcessingResult =
  success :: bool
  face_detected :: bool
  face_count :: int
  face_position :: "position option"
  output_path :: "string option"
  png_path :: "string option"
  jpg_path :: "string option"
  file_size_bytes :: int
  error :: "string option"

text \<open>\<open>ProcessingResult(success=s, error=e)\<close>, every other field at its default.\<close>

definition new_result :: "bool \<Rightarrow> string option \<Rightarrow> ProcessingResult" where
  "new_result s e =
     \<lparr>success = s, face_detected = False, face_count = 0, face_position = None,
      output_path = None, png_path = None, jpg_path = None, file_size_bytes = 0, error = e\<rparr>"

record ProcessingOptions =
  width :: int
  height :: int
  background_color :: color
  face_margin :: rat
  use_oval_mask :: bool
  enhance_face :: bool
  enhance_fidelity :: rat
  enhance_photo :: bool
  max_jpeg_size_kb :: "int option"

definition default_options :: "lib \<Rightarrow> ProcessingOptions" where
  "default_options L =
     \<lparr>width = 648, height = 648, background_color = (240, 240, 240),
      face_margin = rnd L (3 / 10), use_oval_mask = True, enhance_face = True,
      enhance_fidelity = rnd L (7 / 10), enhance_photo = True, max_jpeg_size_kb = Some 99\<rparr>"

text \<open>
  The dictionary \<open>self.stats\<close>: its four keys are set by \<open>__init__\<close> and by
  \<open>reset_stats\<close> and never removed.
\<close>

record stats =
  st_total :: int
  st_success :: int
  st_no_face :: int
  st_errors :: int

definition zero_stats :: stats where
  "zero_stats = \<lparr>st_total = 0, st_success = 0, st_no_face = 0, st_errors = 0\<rparr>"

record PhotoProcessor =
  background_remover :: BackgroundRemover
  face_detector_c :: FaceDetector
  face_enhancer :: FaceEnhancer
  stats :: stats

text \<open>
  The log of what a call did: one event for each stage it entered, in order, whether the
  stage returned or raised. \<open>Crop\<close> carries the region that was passed to
  \<open>crop_face\<close>, \<open>WriteJpeg\<close> the quality of the encoding. A run is the log together
  with the value or the exception.
\<close>

datatype event =
  Load | Restore | Detect | Segment | Landmarks | Align | Crop rectangle | Enhance | Mask
  | Resize | WritePng | MakeDirs | WriteJpeg int

type_synonym 'a run = "event list \<times> (exn + 'a)"

definition ret :: "'a \<Rightarrow> 'a run" where
  "ret v = ([], Inr v)"

definition seq :: "'a run \<Rightarrow> ('a \<Rightarrow> 'b run) \<Rightarrow> 'b run" where
  "seq m k =
     (case m of
        (evs, Inl e) \<Rightarrow> (evs, Inl e)
      | (evs, Inr v) \<Rightarrow> (case k v of (evs', r) \<Rightarrow> (evs @ evs', r)))"

definition call :: "event \<Rightarrow> exn + 'a \<Rightarrow> ('a \<Rightarrow> 'b run) \<Rightarrow> 'b run" where
  "call ev r k = seq ([ev], r) k"

text \<open>Lines 222 to 231 of \<open>_save_output\<close>: a BGRA image is flattened onto the background.\<close>

definition jpeg_flatten :: "lib \<Rightarrow> ndarray \<Rightarrow> color \<Rightarrow> ndarray" where
  "jpeg_flatten L img bg =
     (if chans img = 4
      then img\<lparr>chans := 3,
               px := (\<lambda>y x c. blend L (color_at bg c) (px img y x c) (px img y x 3))\<rparr>
      else img)"

text \<open>
  The loop of lines 239 to 241. \<open>write q\<close> encodes at quality \<open>q\<close> and gives the size of
  the file; \<open>size\<close> is the size of the file as it stands. The result is the last quality
  and the last size.
\<close>

function jpeg_search ::
  "(int \<Rightarrow> exn + int) \<Rightarrow> int \<Rightarrow> int \<Rightarrow> int \<Rightarrow> (int \<times> int) run" where
  "jpeg_search write max_size_bytes quality fsize =
     (if fsize > max_size_bytes \<and> quality > 50
      then call (WriteJpeg (quality - 3)) (write (quality - 3))
             (jpeg_search write max_size_bytes (quality - 3))
      else ret (quality, fsize))"
  by pat_completeness auto
termination
  by (relation "measure (\<lambda>(write, max_size_bytes, quality, fsize). nat (quality - 47))") auto

text \<open>\<open>if options.max_jpeg_size_kb:\<close> holds for an integer other than 0.\<close>

definition truthy :: "int option \<Rightarrow> bool" where
  "truthy v = (case v of None \<Rightarrow> False | Some k \<Rightarrow> k \<noteq> 0)"

definition write_jpeg :: "lib \<Rightarrow> string \<Rightarrow> ndarray \<Rightarrow> ProcessingOptions \<Rightarrow> (int \<times> int) run" where
  "write_jpeg L path jpeg_image options =
     (if truthy (max_jpeg_size_kb options) then
        (let quality = 90;
             max_size_bytes = the (max_jpeg_size_kb options) * 1024
         in call (WriteJpeg quality) (imwrite_jpeg L path jpeg_image quality)
              (jpeg_search (imwrite_jpeg L path jpeg_image) max_size_bytes quality))
      else
        call (WriteJpeg 90) (imwrite_jpeg L path jpeg_image 90) (\<lambda>fsize. ret (90, fsize)))"

definition save_output ::
  "lib \<Rightarrow> ndarray \<Rightarrow> string \<Rightarrow> ProcessingOptions \<Rightarrow> ProcessingResult run" where
  "save_output L img out_path options =
     (let result = new_result True None;
          output_dir = dirname L out_path;
          base_name = stem L out_path
      in
        seq (if use_oval_mask options then
               (let png = join L output_dir (base_name @ ''.png'') in
                call WritePng (imwrite_png L png img) (\<lambda>fsize.
                  ret (result\<lparr>png_path := Some png, output_path := Some png,
                              file_size_bytes := fsize\<rparr>)))
             else ret result) (\<lambda>result.
          let jpg_dir = join L output_dir ''jpg'' in
          call MakeDirs (makedirs L jpg_dir) (\<lambda>u.
            let jpg = join L jpg_dir (base_name @ ''.jpg'');
                jpeg_image = jpeg_flatten L img (background_color options)
            in
              seq (write_jpeg L jpg jpeg_image options) (\<lambda>(quality, fsize).
                let result = result\<lparr>jpg_path := Some jpg\<rparr> in
                ret (if \<not> use_oval_mask options
                     then result\<lparr>output_path := Some jpg, file_size_bytes := fsize\<rparr>
                     else result)))))"

definition position_of :: "rectangle \<Rightarrow> position" where
  "position_of face_rect =
     \<lparr>pos_x = rect_left face_rect, pos_y = rect_top face_rect,
      pos_width = rect_width face_rect, pos_height = rect_height face_rect\<rparr>"

text \<open>Lines 141 to 149 of \<open>process_image\<close>: alignment and the second detection.\<close>

definition align_stage ::
  "lib \<Rightarrow> FaceDetector \<Rightarrow> ndarray \<Rightarrow> ndarray \<Rightarrow> rectangle \<Rightarrow> (ndarray \<times> rectangle) run" where
  "align_stage L fd img image_no_bg face_rect =
     (if has_predictor fd then
        call Landmarks (get_landmarks L fd img face_rect) (\<lambda>landmarks.
          case landmarks of
            None \<Rightarrow> ret (image_no_bg, face_rect)
          | Some lm \<Rightarrow>
              call Align (align_face L image_no_bg lm) (\<lambda>image_no_bg.
                call Detect (detect_face L fd image_no_bg) (\<lambda>new_face_rect.
                  case new_face_rect of
                    Some r \<Rightarrow> ret (image_no_bg, r)
                  | None \<Rightarrow> ret (image_no_bg, face_rect))))
      else ret (image_no_bg, face_rect))"

text \<open>
  The body of the \<open>try\<close> of \<open>process_image\<close> (lines 111 to 188). It ends in the early
  return for no face, in the result of \<open>_save_output\<close> with the face fields set, or in an
  exception. The counters \<open>no_face\<close> and \<open>success\<close> are incremented at points after
  which nothing can raise, so \<open>process_image\<close> below applies them to the outcome.
\<close>

datatype outcome = NoFace | Done ProcessingResult

definition process_try ::
  "lib \<Rightarrow> PhotoProcessor \<Rightarrow> string \<Rightarrow> string \<Rightarrow> ProcessingOptions \<Rightarrow> outcome run" where
  "process_try L self input_path out_path options =
     call Load (case imread L input_path of
                  None \<Rightarrow> Inl (''Could not load image: '' @ input_path)
                | Some img \<Rightarrow> Inr img) (\<lambda>img.
     seq (if enhance_face options \<and> is_available (face_enhancer self)
          then call Restore
                 (FaceEnhancer_enhance L (face_enhancer self) img (enhance_fidelity options)) ret
          else ret img) (\<lambda>img.
     call Detect (detect_face L (face_detector_c self) img) (\<lambda>face_rect.
       case face_rect of
         None \<Rightarrow> ret NoFace
       | Some face_rect \<Rightarrow>
           (let face_pos = position_of face_rect in
            call Segment (remove_background L (background_remover self) img) (\<lambda>image_no_bg.
            seq (align_stage L (face_detector_c self) img image_no_bg face_rect)
              (\<lambda>(image_no_bg, face_rect).
            call (Crop face_rect)
              (Inr (crop_face L image_no_bg face_rect (face_margin options))) (\<lambda>cropped.
            seq (if enhance_photo options
                 then call Enhance (PhotoEnhancer_enhance L cropped) ret
                 else ret cropped) (\<lambda>enhanced.
            seq (if use_oval_mask options
                 then call Mask (OvalMask_apply L enhanced 21) ret
                 else ret enhanced) (\<lambda>enhanced.
            call Resize
              (resize_with_padding L enhanced (width options, height options)
                 (background_color options) (use_oval_mask options)) (\<lambda>final.
            seq (save_output L final out_path options) (\<lambda>result.
              ret (Done (result\<lparr>face_detected := True, face_count := 1,
                                face_position := Some face_pos\<rparr>)))))))))))))"

text \<open>
  \<open>process_image\<close>: the log, the result and the processor with its counters updated.
  \<open>options or ProcessingOptions()\<close> takes the defaults for \<open>None\<close> only.
\<close>

definition bump_total :: "stats \<Rightarrow> stats" where
  "bump_total st = st\<lparr>st_total := st_total st + 1\<rparr>"

definition bump_success :: "stats \<Rightarrow> stats" where
  "bump_success st = st\<lparr>st_success := st_success st + 1\<rparr>"

definition bump_no_face :: "stats \<Rightarrow> stats" where
  "bump_no_face st = st\<lparr>st_no_face := st_no_face st + 1\<rparr>"

definition bump_errors :: "stats \<Rightarrow> stats" where
  "bump_errors st = st\<lparr>st_errors := st_errors st + 1\<rparr>"

definition or_default :: "lib \<Rightarrow> ProcessingOptions option \<Rightarrow> ProcessingOptions" where
  "or_default L options = (case options of None \<Rightarrow> default_options L | Some given \<Rightarrow> given)"

definition process_image ::
  "lib \<Rightarrow> PhotoProcessor \<Rightarrow> string \<Rightarrow> string \<Rightarrow> ProcessingOptions option \<Rightarrow>
   event list \<times> ProcessingResult \<times> PhotoProcessor" where
  "process_image L self input_path out_path options =
     (let self = self\<lparr>stats := bump_total (stats self)\<rparr>;
          options = or_default L options
      in
        case process_try L self input_path out_path options of
          (evs, Inr NoFace) \<Rightarrow>
            (evs, (new_result False (Some ''no_face_detected''))\<lparr>face_detected := False\<rparr>,
             self\<lparr>stats := bump_no_face (stats self)\<rparr>)
        | (evs, Inr (Done result)) \<Rightarrow>
            (evs, result, self\<lparr>stats := bump_success (stats self)\<rparr>)
        | (evs, Inl e) \<Rightarrow>
            (evs, new_result False (Some e), self\<lparr>stats := bump_errors (stats self)\<rparr>))"

text \<open>\<open>get_stats\<close>: the counters and the key \<open>success_rate\<close>; \<open>reset_stats\<close>.\<close>

definition get_stats :: "lib \<Rightarrow> PhotoProcessor \<Rightarrow> exn + stats \<times> rat" where
  "get_stats L self =
     (let st = stats self in
      if st_total st > 0
      then andthen (truediv L (st_success st) (st_total st)) (\<lambda>rate. Inr (st, rate))
      else Inr (st, 0))"

definition reset_stats :: "PhotoProcessor \<Rightarrow> PhotoProcessor" where
  "reset_stats self = self\<lparr>stats := zero_stats\<rparr>"

section \<open>Notions the properties are stated with\<close>

text \<open>
  The image that face detection runs on (lines 116 to 118): the restored image when
  restoration is asked for and available, the loaded image otherwise; and the entry this
  step leaves in the log.
\<close>

definition restored :: "lib \<Rightarrow> PhotoProcessor \<Rightarrow> ProcessingOptions \<Rightarrow> ndarray \<Rightarrow> ndarray" where
  "restored L self options img =
     (if enhance_face options \<and> is_available (face_enhancer self)
      then (case FaceEnhancer_enhance L (face_enhancer self) img (enhance_fidelity options) of
              Inr out \<Rightarrow> out
            | Inl e \<Rightarrow> img)
      else img)"

definition restore_log :: "PhotoProcessor \<Rightarrow> ProcessingOptions \<Rightarrow> event list" where
  "restore_log self options =
     (if enhance_face options \<and> is_available (face_enhancer self) then [Restore] else [])"

text \<open>
  A request is the arguments of one call of \<open>process_image\<close>. Its kind is the way the
  \<open>try\<close> ends: with the result of \<open>_save_output\<close>, with the early return, or with an
  exception. \<open>process_all\<close> makes the calls one after the other on the same processor.
\<close>

text \<open>
  The region that is cropped after alignment: the one found on the rotated image, or the
  one from before the rotation when nothing is found there.
\<close>

definition region_after :: "rectangle \<Rightarrow> rectangle option \<Rightarrow> rectangle" where
  "region_after face_rect new_face_rect =
     (case new_face_rect of Some r \<Rightarrow> r | None \<Rightarrow> face_rect)"

definition is_jpeg_write :: "event \<Rightarrow> bool" where
  "is_jpeg_write ev = (case ev of WriteJpeg q \<Rightarrow> True | _ \<Rightarrow> False)"

type_synonym request = "string \<times> string \<times> ProcessingOptions option"

datatype kind = Succeeded | NoFaceFound | Failed

definition kind_of :: "lib \<Rightarrow> PhotoProcessor \<Rightarrow> request \<Rightarrow> kind" where
  "kind_of L self rq =
     (case rq of (input_path, out_path, options) \<Rightarrow>
        (case snd (process_try L self input_path out_path (or_default L options)) of
           Inr (Done result) \<Rightarrow> Succeeded
         | Inr NoFace \<Rightarrow> NoFaceFound
         | Inl e \<Rightarrow> Failed))"

fun process_all :: "lib \<Rightarrow> PhotoProcessor \<Rightarrow> request list \<Rightarrow> PhotoProcessor" where
  "process_all L self [] = self"
| "process_all L self (rq # rqs) =
     (case rq of (input_path, out_path, options) \<Rightarrow>
        process_all L (snd (snd (process_image L self input_path out_path options))) rqs)"

definition tally :: "kind \<Rightarrow> stats \<Rightarrow> stats" where
  "tally k st =
     (case k of
        Succeeded \<Rightarrow> bump_success (bump_total st)
      | NoFaceFound \<Rightarrow> bump_no_face (bump_total st)
      | Failed \<Rightarrow> bump_errors (bump_total st))"

definition add_counts :: "kind list \<Rightarrow> stats \<Rightarrow> stats" where
  "add_counts ks st =
     \<lparr>st_total = st_total st + int (length ks),
      st_success = st_success st + int (count_list ks Succeeded),
      st_no_face = st_no_face st + int (count_list ks NoFaceFound),
      st_errors = st_errors st + int (count_list ks Failed)\<rparr>"

section \<open>Test doubles\<close>

text \<open>
  A library for the concrete runs: exact arithmetic for \<open>rnd\<close> (right wherever every
  intermediate value is a float already), colour conversions that keep the pixels,
  a nearest-neighbour \<open>lanczos4\<close>, an ellipse drawn from its equation, no feathering,
  and encoders whose file size grows with the quality. \<open>imread\<close> knows two files, a
  portrait and a blank wall; the detector sees a face where the first pixel is not black.
\<close>

definition test_image :: ndarray where
  "test_image = \<lparr>rows = 2, cols = 2, chans = 3, px = (\<lambda>y x c. word_of_nat (100 + 10 * y + x))\<rparr>"

definition blank_image :: ndarray where
  "blank_image = zeros 3 3 3"

definition with_alpha :: "ndarray \<Rightarrow> ndarray" where
  "with_alpha a = a\<lparr>chans := 4, px := (\<lambda>y x c. if c = 3 then 255 else px a y x c)\<rparr>"

definition nearest :: "ndarray \<Rightarrow> int \<times> int \<Rightarrow> ndarray" where
  "nearest a dsize =
     \<lparr>rows = nat (snd dsize), cols = nat (fst dsize), chans = chans a,
      px = (\<lambda>y x c. px a (y * rows a div nat (snd dsize)) (x * cols a div nat (fst dsize)) c)\<rparr>"

definition draw_ellipse :: "ndarray \<Rightarrow> int \<times> int \<Rightarrow> int \<times> int \<Rightarrow> ndarray" where
  "draw_ellipse m center axes =
     m\<lparr>px := (\<lambda>y x c.
        if (int x - fst center)\<^sup>2 * (snd axes)\<^sup>2 + (int y - snd center)\<^sup>2 * (fst axes)\<^sup>2
             \<le> (fst axes)\<^sup>2 * (snd axes)\<^sup>2
        then 255 else px m y x c)\<rparr>"

definition round_multiply :: "8 word \<Rightarrow> 8 word \<Rightarrow> rat \<Rightarrow> 8 word" where
  "round_multiply a b scale = word_of_int (min 255 (round (of_int (uint a) * of_int (uint b) * scale)))"

definition test_lib :: lib where
  "test_lib =
     \<lparr>rnd = (\<lambda>x. x),
      float_pow = (\<lambda>x y. x),
      imread = (\<lambda>path. if path = ''portrait.jpg'' then Some test_image
                       else if path = ''wall.jpg'' then Some blank_image
                       else None),
      bgr2rgb = Inr,
      rgb2bgr = Inr,
      rgba2bgra = Inr,
      bgr2gray = (\<lambda>a. Inr (plane a 0)),
      bgr2bgra = (\<lambda>a. Inr (with_alpha a)),
      bgr2lab = Inr,
      lab2bgr = Inr,
      clahe_apply = Inr,
      addWeighted = (\<lambda>a wa b wb. Inr a),
      bilateralFilter = Inr,
      filter2D = Inr,
      pil_contrast = (\<lambda>a factor. Inr a),
      pil_color = (\<lambda>a factor. Inr a),
      ellipse = (\<lambda>mask center axes. Inr (draw_ellipse mask center axes)),
      GaussianBlur = (\<lambda>mask ksize sigma. Inr mask),
      multiply = round_multiply,
      lanczos4 = (\<lambda>a dsize. Inr (nearest a dsize)),
      warp_rotate = (\<lambda>a center dy dx. Inr a),
      dirname = (\<lambda>path. ''out''),
      stem = (\<lambda>path. ''portrait''),
      join = (\<lambda>dir name. dir @ ''/'' @ name),
      makedirs = (\<lambda>path. Inr ()),
      imwrite_png = (\<lambda>path a. Inr 150000),
      imwrite_jpeg = (\<lambda>path a quality. Inr (1500 * quality))\<rparr>"

text \<open>The same library with an encoder whose files are 200000 bytes at every quality.\<close>

definition heavy_lib :: lib where
  "heavy_lib = test_lib\<lparr>imwrite_jpeg := (\<lambda>path a quality. Inr 200000)\<rparr>"

text \<open>Enhancers: one without a model, one whose helper finds no face, one whose helper raises.\<close>

definition no_enhancer :: FaceEnhancer where
  "no_enhancer = \<lparr>codeformer_net = None, face_helper = None\<rparr>"

definition faceless_enhancer :: FaceEnhancer where
  "faceless_enhancer =
     \<lparr>codeformer_net = Some (\<lambda>face w. Inr face),
      face_helper = Some \<lparr>crop_faces = (\<lambda>a. Inr []), paste_faces = (\<lambda>a faces. Inr a)\<rparr>\<rparr>"

definition broken_enhancer :: FaceEnhancer where
  "broken_enhancer =
     \<lparr>codeformer_net = Some (\<lambda>face w. Inr face),
      face_helper = Some \<lparr>crop_faces = (\<lambda>a. Inl ''CUDA out of memory''),
                          paste_faces = (\<lambda>a faces. Inr a)\<rparr>\<rparr>"

definition test_face :: rectangle where
  "test_face = \<lparr>rect_left = 0, rect_top = 0, rect_right = 1, rect_bottom = 1\<rparr>"

definition test_detector :: FaceDetector where
  "test_detector =
     \<lparr>face_detector = (\<lambda>gray upsample. if px gray 0 0 0 = 0 then Inr [] else Inr [test_face]),
      predictor = None\<rparr>"

definition test_processor :: PhotoProcessor where
  "test_processor =
     \<lparr>background_remover = \<lparr>session = (\<lambda>a. Inr (with_alpha a))\<rparr>,
      face_detector_c = test_detector,
      face_enhancer = no_enhancer,
      stats = zero_stats\<rparr>"

text \<open>
  For the runs through alignment: options that leave out restoration, enhancement and the
  mask; a library whose rotation maps every pixel value through \<open>g\<close>; a detector with a
  predictor, which finds \<open>test_face\<close> where the first pixel is 100, nothing where it is
  0 and \<open>moved_face\<close> elsewhere.
\<close>

definition plain_options :: ProcessingOptions where
  "plain_options =
     \<lparr>width = 2, height = 2, background_color = (240, 240, 240), face_margin = 0,
      use_oval_mask = False, enhance_face = False, enhance_fidelity = 1 / 2,
      enhance_photo = False, max_jpeg_size_kb = None\<rparr>"

definition moved_face :: rectangle where
  "moved_face = \<lparr>rect_left = 0, rect_top = 0, rect_right = 2, rect_bottom = 2\<rparr>"

definition turned :: "(8 word \<Rightarrow> 8 word) \<Rightarrow> ndarray \<Rightarrow> ndarray" where
  "turned g a = a\<lparr>px := (\<lambda>y x c. g (px a y x c))\<rparr>"

definition turning_lib :: "(8 word \<Rightarrow> 8 word) \<Rightarrow> lib" where
  "turning_lib g = test_lib\<lparr>warp_rotate := (\<lambda>a center dy dx. Inr (turned g a))\<rparr>"

definition aligning_detector :: FaceDetector where
  "aligning_detector =
     \<lparr>face_detector = (\<lambda>gray upsample.
        if px gray 0 0 0 = 0 then Inr []
        else if px gray 0 0 0 = 100 then Inr [test_face]
        else Inr [moved_face]),
      predictor = Some (\<lambda>gray face_rect. Inr (replicate 68 (0, 0)))\<rparr>"

definition aligning_processor :: PhotoProcessor where
  "aligning_processor = test_processor\<lparr>face_detector_c := aligning_detector\<rparr>"

section \<open>The event log\<close>

lemma call_Inl: "call ev (Inl e) k = ([ev], Inl e)"
  by (simp add: call_def seq_def)

lemma call_Inr: "call ev (Inr v) k = (ev # fst (k v), snd (k v))"
  by (simp add: call_def seq_def split: prod.splits)

lemma call_Inr_case: "call ev (Inr v) k = (case k v of (evs, r) \<Rightarrow> (ev # evs, r))"
  by (simp add: call_def seq_def)

lemma seq_Inl: "seq (evs, Inl e) k = (evs, Inl e)"
  by (simp add: seq_def)

lemma seq_Inr: "seq (evs, Inr v) k = (evs @ fst (k v), snd (k v))"
  by (simp add: seq_def split: prod.splits)

lemma seq_ret: "seq (ret v) k = k v"
  by (simp add: seq_def ret_def split: prod.splits)

lemmas run_simps = call_Inl call_Inr seq_Inl seq_Inr ret_def

lemma seq_Inr_case: "seq (evs, Inr v) k = (case k v of (evs', r) \<Rightarrow> (evs @ evs', r))"
  by (simp add: seq_def)

lemmas eval_simps = call_Inl call_Inr_case seq_Inl seq_Inr_case ret_def

lemma snd_ret: "snd (ret v) = Inr r \<longleftrightarrow> v = r"
  by (simp add: ret_def)

lemma snd_seq: "snd (seq m k) = Inr r \<longleftrightarrow> (\<exists>v. snd m = Inr v \<and> snd (k v) = Inr r)"
  by (cases m) (auto simp: seq_def split: sum.splits prod.splits)

lemma snd_call: "snd (call ev x k) = Inr r \<longleftrightarrow> (\<exists>v. x = Inr v \<and> snd (k v) = Inr r)"
  by (simp add: call_def snd_seq)

section \<open>The test doubles, field by field\<close>

lemma test_lib_fields:
  "rnd test_lib = (\<lambda>x. x)"
  "float_pow test_lib = (\<lambda>x y. x)"
  "bgr2rgb test_lib = Inr"
  "rgb2bgr test_lib = Inr"
  "rgba2bgra test_lib = Inr"
  "bgr2gray test_lib = (\<lambda>a. Inr (plane a 0))"
  "bgr2bgra test_lib = (\<lambda>a. Inr (with_alpha a))"
  "bgr2lab test_lib = Inr"
  "lab2bgr test_lib = Inr"
  "clahe_apply test_lib = Inr"
  "addWeighted test_lib = (\<lambda>a wa b wb. Inr a)"
  "bilateralFilter test_lib = Inr"
  "filter2D test_lib = Inr"
  "pil_contrast test_lib = (\<lambda>a factor. Inr a)"
  "pil_color test_lib = (\<lambda>a factor. Inr a)"
  "ellipse test_lib = (\<lambda>mask center axes. Inr (draw_ellipse mask center axes))"
  "GaussianBlur test_lib = (\<lambda>mask ksize sigma. Inr mask)"
  "multiply test_lib = round_multiply"
  "lanczos4 test_lib = (\<lambda>a dsize. Inr (nearest a dsize))"
  "warp_rotate test_lib = (\<lambda>a center dy dx. Inr a)"
  "dirname test_lib = (\<lambda>path. ''out'')"
  "stem test_lib = (\<lambda>path. ''portrait'')"
  "join test_lib = (\<lambda>dir name. dir @ ''/'' @ name)"
  "makedirs test_lib = (\<lambda>path. Inr ())"
  "imwrite_png test_lib = (\<lambda>path a. Inr 150000)"
  "imwrite_jpeg test_lib = (\<lambda>path a quality. Inr (1500 * quality))"
  by (simp_all add: test_lib_def)

lemma test_lib_imread:
  "imread test_lib ''portrait.jpg'' = Some test_image"
  "imread test_lib ''wall.jpg'' = Some blank_image"
  "imread test_lib ''missing.jpg'' = None"
  by (simp_all add: test_lib_def)

lemma test_processor_fields:
  "face_detector_c test_processor = test_detector"
  "face_enhancer test_processor = no_enhancer"
  "background_remover test_processor = \<lparr>session = (\<lambda>a. Inr (with_alpha a))\<rparr>"
  "stats test_processor = zero_stats"
  by (simp_all add: test_processor_def)

lemma no_enhancer_unavailable: "\<not> is_available no_enhancer"
  by (simp add: is_available_def no_enhancer_def)

lemma test_detect_wall: "detect_face test_lib test_detector blank_image = Inr None"
  by (simp add: detect_face_def test_lib_fields test_detector_def blank_image_def zeros_def
        plane_def)

lemma test_detect_portrait: "detect_face test_lib test_detector test_image = Inr (Some test_face)"
  by (simp add: detect_face_def test_lib_fields test_detector_def test_image_def plane_def)

section \<open>Face restoration\<close>

text \<open>
  C6. The face restoration stage never aborts: \<open>FaceEnhancer.enhance\<close> always returns an image. An
  enhancer that is not available returns its input unchanged; an available one whose helper
  finds no face returns the original image; and an exception raised anywhere inside the
  \<open>try\<close> gives the input image back.
\<close>

theorem enhance_never_aborts:
  "(\<exists>out. FaceEnhancer_enhance L fe img w = Inr out) \<and>
   (\<not> is_available fe \<longrightarrow> FaceEnhancer_enhance L fe img w = Inr img) \<and>
   (is_available fe \<and> bgr2rgb L img = Inr img_rgb \<and>
      crop_faces (the (face_helper fe)) img_rgb = Inr [] \<longrightarrow> FaceEnhancer_enhance L fe img w = Inr img) \<and>
   (is_available fe \<and> FaceEnhancer_enhance_try L fe img w = Inl e \<longrightarrow> FaceEnhancer_enhance L fe img w = Inr img)"
  by (auto simp: FaceEnhancer_enhance_def FaceEnhancer_enhance_try_def is_available_def split: sum.splits option.splits)

theorem enhance_never_aborts_witness:
  "\<not> is_available no_enhancer
   \<and> FaceEnhancer_enhance test_lib no_enhancer test_image (7 / 10) = Inr test_image
   \<and> is_available faceless_enhancer
   \<and> crop_faces (the (face_helper faceless_enhancer)) test_image = Inr []
   \<and> FaceEnhancer_enhance test_lib faceless_enhancer test_image (7 / 10) = Inr test_image
   \<and> is_available broken_enhancer
   \<and> FaceEnhancer_enhance_try test_lib broken_enhancer test_image (7 / 10) = Inl ''CUDA out of memory''
   \<and> FaceEnhancer_enhance test_lib broken_enhancer test_image (7 / 10) = Inr test_image"
proof -
  have a: "\<not> is_available no_enhancer"
    by (simp add: is_available_def no_enhancer_def)
  have b: "is_available faceless_enhancer \<and> bgr2rgb test_lib test_image = Inr test_image
           \<and> crop_faces (the (face_helper faceless_enhancer)) test_image = Inr []"
    by (simp add: is_available_def faceless_enhancer_def test_lib_def)
  have c: "is_available broken_enhancer
           \<and> FaceEnhancer_enhance_try test_lib broken_enhancer test_image (7 / 10)
               = Inl ''CUDA out of memory''"
    by (simp add: is_available_def broken_enhancer_def FaceEnhancer_enhance_try_def test_lib_def)
  from a b c
    enhance_never_aborts [of test_lib no_enhancer test_image "7 / 10"]
    enhance_never_aborts [of test_lib faceless_enhancer test_image "7 / 10" test_image]
    enhance_never_aborts [of test_lib broken_enhancer test_image "7 / 10" _ "''CUDA out of memory''"]
  show ?thesis by blast
qed

section \<open>The orchestrator: load failure, no face, statistics\<close>

lemma process_try_load_fails:
  "imread L input_path = None \<Longrightarrow>
   process_try L self input_path out_path options
     = ([Load], Inl (''Could not load image: '' @ input_path))"
  by (simp add: process_try_def call_Inl)

lemma restore_total: "\<exists>out. FaceEnhancer_enhance L fe img w = Inr out"
  by (auto simp: FaceEnhancer_enhance_def split: sum.splits)

lemma restore_step:
  "seq (if enhance_face options \<and> is_available (face_enhancer self)
        then call Restore
               (FaceEnhancer_enhance L (face_enhancer self) img (enhance_fidelity options)) ret
        else ret img) k
   = (restore_log self options @ fst (k (restored L self options img)),
      snd (k (restored L self options img)))"
proof (cases "enhance_face options \<and> is_available (face_enhancer self)")
  case True
  obtain out where out:
    "FaceEnhancer_enhance L (face_enhancer self) img (enhance_fidelity options) = Inr out"
    using restore_total by blast
  show ?thesis
    using True out
    by (simp add: restored_def restore_log_def call_def seq_def ret_def split: prod.splits)
next
  case False
  then show ?thesis
    by (auto simp: restored_def restore_log_def seq_ret)
qed

lemma process_try_no_face:
  assumes "imread L input_path = Some img"
    and "detect_face L (face_detector_c self) (restored L self options img) = Inr None"
  shows "process_try L self input_path out_path options
           = (Load # restore_log self options @ [Detect], Inr NoFace)"
  using assms by (simp add: process_try_def call_Inr restore_step ret_def)

lemma process_try_ignores_stats:
  "process_try L (self\<lparr>stats := s\<rparr>) input_path out_path options
     = process_try L self input_path out_path options"
  by (simp add: process_try_def cong: if_cong option.case_cong)

lemma restored_ignores_stats: "restored L (self\<lparr>stats := s\<rparr>) options img = restored L self options img"
  by (simp add: restored_def)

lemma restore_log_ignores_stats: "restore_log (self\<lparr>stats := s\<rparr>) options = restore_log self options"
  by (simp add: restore_log_def)

text \<open>
  C8. When the source image cannot be loaded, \<open>process_image\<close> enters no stage after the
  load and returns an unsuccessful result that carries the load error; the no-face and
  success counters keep their values, and the total and error counters go up by one.
\<close>

theorem load_failure_counts_as_error:
  "imread L input_path = None \<Longrightarrow>
   process_image L self input_path out_path options =
     ([Load],
      \<lparr>success = False, face_detected = False, face_count = 0, face_position = None,
       output_path = None, png_path = None, jpg_path = None, file_size_bytes = 0,
       error = Some (''Could not load image: '' @ input_path)\<rparr>,
      self\<lparr>stats := \<lparr>st_total = st_total (stats self) + 1,
                       st_success = st_success (stats self),
                       st_no_face = st_no_face (stats self),
                       st_errors = st_errors (stats self) + 1\<rparr>\<rparr>)"
  by (simp add: process_image_def process_try_load_fails bump_total_def bump_errors_def Let_def
        new_result_def)

theorem load_failure_counts_as_error_witness:
  "imread test_lib ''missing.jpg'' = None \<and>
   process_image test_lib test_processor ''missing.jpg'' ''out/portrait.png'' None =
     ([Load],
      \<lparr>success = False, face_detected = False, face_count = 0, face_position = None,
       output_path = None, png_path = None, jpg_path = None, file_size_bytes = 0,
       error = Some ''Could not load image: missing.jpg''\<rparr>,
      test_processor\<lparr>stats := \<lparr>st_total = 1, st_success = 0, st_no_face = 0, st_errors = 1\<rparr>\<rparr>)"
  using load_failure_counts_as_error
          [of test_lib "''missing.jpg''" test_processor "''out/portrait.png''" None]
  by (simp add: test_lib_imread test_processor_fields zero_stats_def)

text \<open>
  C1. When the image loads and face detection, run on the loaded or restored image, finds
  no face, \<open>process_image\<close> returns an unsuccessful result with \<open>face_detected\<close> false
  and the error \<open>no_face_detected\<close>; the total and no-face counters go up by one, the
  success and error counters keep their values; and the log ends with the detection: no
  segmentation, crop, enhancement, mask, resize or encoding is entered.
\<close>

theorem no_face_detected:
  assumes "imread L input_path = Some img"
    and "detect_face L (face_detector_c self) (restored L self (or_default L options) img)
           = Inr None"
  shows "process_image L self input_path out_path options =
     (Load # restore_log self (or_default L options) @ [Detect],
      \<lparr>success = False, face_detected = False, face_count = 0, face_position = None,
       output_path = None, png_path = None, jpg_path = None, file_size_bytes = 0,
       error = Some ''no_face_detected''\<rparr>,
      self\<lparr>stats := \<lparr>st_total = st_total (stats self) + 1,
                       st_success = st_success (stats self),
                       st_no_face = st_no_face (stats self) + 1,
                       st_errors = st_errors (stats self)\<rparr>\<rparr>)"
proof -
  let ?self = "self\<lparr>stats := bump_total (stats self)\<rparr>"
  have "process_try L ?self input_path out_path (or_default L options)
          = (Load # restore_log ?self (or_default L options) @ [Detect], Inr NoFace)"
    using assms by (intro process_try_no_face) (simp_all add: restored_ignores_stats)
  then show ?thesis
    by (simp add: process_image_def Let_def restore_log_ignores_stats new_result_def
          bump_total_def bump_no_face_def)
qed

theorem no_face_detected_witness:
  "imread test_lib ''wall.jpg'' = Some blank_image \<and>
   detect_face test_lib (face_detector_c test_processor)
     (restored test_lib test_processor (or_default test_lib None) blank_image) = Inr None \<and>
   process_image test_lib test_processor ''wall.jpg'' ''out/portrait.png'' None =
     ([Load, Detect],
      \<lparr>success = False, face_detected = False, face_count = 0, face_position = None,
       output_path = None, png_path = None, jpg_path = None, file_size_bytes = 0,
       error = Some ''no_face_detected''\<rparr>,
      test_processor\<lparr>stats := \<lparr>st_total = 1, st_success = 0, st_no_face = 1, st_errors = 0\<rparr>\<rparr>)"
proof -
  have r: "restored test_lib test_processor (or_default test_lib None) blank_image = blank_image"
    by (simp add: restored_def test_processor_fields no_enhancer_unavailable)
  have l: "restore_log test_processor (or_default test_lib None) = []"
    by (simp add: restore_log_def test_processor_fields no_enhancer_unavailable)
  have d: "detect_face test_lib (face_detector_c test_processor)
             (restored test_lib test_processor (or_default test_lib None) blank_image) = Inr None"
    by (simp add: r test_processor_fields test_detect_wall)
  from no_face_detected [OF test_lib_imread(2) d, of "''out/portrait.png''"] d
  show ?thesis
    by (simp add: l test_lib_imread test_processor_fields zero_stats_def)
qed

lemma process_image_state:
  "snd (snd (process_image L self input_path out_path options))
     = self\<lparr>stats := tally (kind_of L self (input_path, out_path, options)) (stats self)\<rparr>"
  by (simp add: process_image_def kind_of_def tally_def process_try_ignores_stats Let_def
      split: prod.splits sum.splits outcome.splits)

lemma kind_of_ignores_stats: "kind_of L (self\<lparr>stats := s\<rparr>) rq = kind_of L self rq"
  by (simp add: kind_of_def process_try_ignores_stats split: prod.splits)

lemma process_all_stats:
  "process_all L self rqs = self\<lparr>stats := add_counts (map (kind_of L self) rqs) (stats self)\<rparr>"
proof (induction rqs arbitrary: self)
  case Nil
  then show ?case by (simp add: add_counts_def)
next
  case (Cons rq rqs)
  obtain i out opts where rq: "rq = (i, out, opts)" by (cases rq) auto
  show ?case
    by (cases "kind_of L self (i, out, opts)")
       (simp_all add: rq process_image_state Cons.IH kind_of_ignores_stats add_counts_def tally_def
          bump_total_def bump_success_def bump_no_face_def bump_errors_def)
qed

lemma count_kinds:
  "length ks = count_list ks Succeeded + count_list ks NoFaceFound + count_list ks Failed"
proof (induction ks)
  case Nil
  then show ?case by simp
next
  case (Cons k ks)
  then show ?case by (cases k) simp_all
qed

lemma save_output_success:
  "snd (save_output L img out_path options) = Inr r \<Longrightarrow> success r"
  by (auto simp: save_output_def Let_def snd_seq snd_call snd_ret new_result_def
      split: if_splits prod.splits)

lemma process_try_success:
  "snd (process_try L self input_path out_path options) = Inr (Done r) \<Longrightarrow> success r"
  by (auto simp: process_try_def Let_def snd_seq snd_call snd_ret
      dest: save_output_success split: if_splits prod.splits option.splits)

lemma process_try_success_pair:
  "process_try L self input_path out_path options = (evs, Inr (Done r)) \<Longrightarrow> success r"
  using process_try_success [of L self input_path out_path options r] by simp

lemma success_iff_kind:
  "success (fst (snd (process_image L self input_path out_path options)))
     \<longleftrightarrow> kind_of L self (input_path, out_path, options) = Succeeded"
  by (auto simp: process_image_def kind_of_def Let_def process_try_ignores_stats new_result_def
      dest: process_try_success_pair split: prod.splits sum.splits outcome.splits)

lemma get_stats_value:
  "get_stats L self =
     Inr (stats self,
          if st_total (stats self) > 0
          then rnd L (of_int (st_success (stats self)) / of_int (st_total (stats self)))
          else 0)"
  by (simp add: get_stats_def truediv_def andthen_def Let_def)

lemma tally_mono:
  "st_total st \<le> st_total (tally k st) \<and> st_success st \<le> st_success (tally k st) \<and>
   st_no_face st \<le> st_no_face (tally k st) \<and> st_errors st \<le> st_errors (tally k st)"
  by (cases k)
     (simp_all add: tally_def bump_total_def bump_success_def bump_no_face_def bump_errors_def)

text \<open>
  C9. After \<open>N\<close> calls of \<open>process_image\<close> on a processor whose counters were reset, of
  which \<open>S\<close> succeeded, \<open>F\<close> found no face and \<open>E\<close> raised, the counters are
  \<open>total = N\<close>, \<open>success = S\<close>, \<open>no_face = F\<close>, \<open>errors = E\<close>, with
  \<open>N = S + F + E\<close>; the calls that succeeded are those whose result has \<open>success\<close> set.
  No call lowers a counter, and \<open>reset_stats\<close> sets them to zero. \<open>get_stats\<close> never
  raises: its success rate is the float quotient \<open>S / N\<close> when \<open>N > 0\<close> and 0 when
  \<open>N = 0\<close>.
\<close>

theorem statistics_counters:
  "(let ks = map (kind_of L self) rqs;
        after = process_all L (reset_stats self) rqs
    in stats after =
         \<lparr>st_total = int (length rqs),
          st_success = int (count_list ks Succeeded),
          st_no_face = int (count_list ks NoFaceFound),
          st_errors = int (count_list ks Failed)\<rparr>
       \<and> length rqs = count_list ks Succeeded + count_list ks NoFaceFound + count_list ks Failed
       \<and> get_stats L after =
           Inr (stats after,
                if rqs = [] then 0
                else rnd L (of_nat (count_list ks Succeeded) / of_nat (length rqs))))
   \<and> (success (fst (snd (process_image L self input_path out_path options)))
        = (kind_of L self (input_path, out_path, options) = Succeeded))
   \<and> (let st = stats self;
          st' = stats (snd (snd (process_image L self input_path out_path options)))
      in st_total st' = st_total st + 1
         \<and> st_success st \<le> st_success st' \<and> st_no_face st \<le> st_no_face st'
         \<and> st_errors st \<le> st_errors st'
         \<and> st_total st' - st_total st
             = (st_success st' - st_success st) + (st_no_face st' - st_no_face st)
               + (st_errors st' - st_errors st))
   \<and> stats (reset_stats self) = \<lparr>st_total = 0, st_success = 0, st_no_face = 0, st_errors = 0\<rparr>
   \<and> get_stats L self =
       Inr (stats self,
            if st_total (stats self) > 0
            then rnd L (of_int (st_success (stats self)) / of_int (st_total (stats self)))
            else 0)"
proof -
  let ?ks = "map (kind_of L self) rqs"
  let ?after = "process_all L (reset_stats self) rqs"
  have ks: "map (kind_of L (reset_stats self)) rqs = ?ks"
    by (simp add: reset_stats_def kind_of_ignores_stats)
  have st: "stats ?after =
         \<lparr>st_total = int (length rqs),
          st_success = int (count_list ?ks Succeeded),
          st_no_face = int (count_list ?ks NoFaceFound),
          st_errors = int (count_list ?ks Failed)\<rparr>"
    by (simp add: process_all_stats ks) (simp add: reset_stats_def add_counts_def zero_stats_def)
  have len: "length rqs
               = count_list ?ks Succeeded + count_list ?ks NoFaceFound + count_list ?ks Failed"
    using count_kinds [of ?ks] by simp
  have rate: "get_stats L ?after =
           Inr (stats ?after,
                if rqs = [] then 0
                else rnd L (of_nat (count_list ?ks Succeeded) / of_nat (length rqs)))"
    by (simp add: get_stats_value st)
  have one: "let st = stats self;
          st' = stats (snd (snd (process_image L self input_path out_path options)))
      in st_total st' = st_total st + 1
         \<and> st_success st \<le> st_success st' \<and> st_no_face st \<le> st_no_face st'
         \<and> st_errors st \<le> st_errors st'
         \<and> st_total st' - st_total st
             = (st_success st' - st_success st) + (st_no_face st' - st_no_face st)
               + (st_errors st' - st_errors st)"
    by (cases "kind_of L self (input_path, out_path, options)")
       (simp_all add: process_image_state tally_def bump_total_def bump_success_def
          bump_no_face_def bump_errors_def)
  have reset: "stats (reset_stats self)
                 = \<lparr>st_total = 0, st_success = 0, st_no_face = 0, st_errors = 0\<rparr>"
    by (simp add: reset_stats_def zero_stats_def)
  show ?thesis
    unfolding Let_def
    using st len rate one reset success_iff_kind [of L self input_path out_path options]
      get_stats_value [of L self]
    by (simp add: Let_def)
qed

section \<open>The size-bounded encoding\<close>

lemma jpeg_search_steps:
  assumes "48 \<le> q" "q mod 3 = 0"
  shows "\<exists>n r. jpeg_search enc m q s = (map (\<lambda>i. WriteJpeg (q - 3 * (int i + 1))) [0..<n], r)
           \<and> 3 * int n \<le> q - 48
           \<and> (\<forall>i<n. i + 1 < n \<longrightarrow> (\<exists>s'. enc (q - 3 * (int i + 1)) = Inr s' \<and> m < s'))
           \<and> (n > 0 \<longrightarrow> m < s)
           \<and> (case r of
                 Inl e \<Rightarrow> n > 0 \<and> enc (q - 3 * int n) = Inl e
               | Inr (q', s') \<Rightarrow> q' = q - 3 * int n \<and> (s' \<le> m \<or> q' = 48)
                     \<and> (if n = 0 then s' = s else enc q' = Inr s'))"
  using assms
proof (induction enc m q s rule: jpeg_search.induct)
  case (1 enc m q s)
  show ?case
  proof (cases "s > m \<and> q > 50")
    case False
    have "q = 48" if "\<not> q > 50" using that 1(2,3) by presburger
    with False 1(2) show ?thesis
      by (intro exI [of _ 0]) (auto simp: jpeg_search.simps [of enc m q s] ret_def)
  next
    case True
    then have q3: "48 \<le> q - 3" "(q - 3) mod 3 = 0" using 1(2,3) by presburger+
    show ?thesis
    proof (cases "enc (q - 3)")
      case (Inl e)
      with True show ?thesis
        by (intro exI [of _ 1] exI [of _ "Inl e"])
           (use q3 in \<open>simp add: jpeg_search.simps [of enc m q s] call_Inl\<close>)
    next
      case (Inr s1)
      from 1(1) [OF True q3] obtain n r where
        IH: "jpeg_search enc m (q - 3) s1
              = (map (\<lambda>i. WriteJpeg (q - 3 - 3 * (int i + 1))) [0..<n], r)"
          "3 * int n \<le> q - 3 - 48"
          "\<forall>i<n. i + 1 < n \<longrightarrow> (\<exists>s'. enc (q - 3 - 3 * (int i + 1)) = Inr s' \<and> m < s')"
          "n > 0 \<longrightarrow> m < s1"
          "case r of
                 Inl e \<Rightarrow> n > 0 \<and> enc (q - 3 - 3 * int n) = Inl e
               | Inr (q', s') \<Rightarrow> q' = q - 3 - 3 * int n \<and> (s' \<le> m \<or> q' = 48)
                     \<and> (if n = 0 then s' = s1 else enc q' = Inr s')"
        by blast
      have evs: "WriteJpeg (q - 3) # map (\<lambda>i. WriteJpeg (q - 3 - 3 * (int i + 1))) [0..<n]
                  = map (\<lambda>i. WriteJpeg (q - 3 * (int i + 1))) [0..<Suc n]"
        by (subst map_upt_Suc) (simp add: algebra_simps)
      have a: "jpeg_search enc m q s
                 = (map (\<lambda>i. WriteJpeg (q - 3 * (int i + 1))) [0..<Suc n], r)"
        using True Inr IH(1) evs by (simp add: jpeg_search.simps [of enc m q s] call_Inr)
      have b: "\<forall>i<Suc n. i + 1 < Suc n \<longrightarrow> (\<exists>s'. enc (q - 3 * (int i + 1)) = Inr s' \<and> m < s')"
      proof (intro allI impI)
        fix i assume "i < Suc n" "i + 1 < Suc n"
        show "\<exists>s'. enc (q - 3 * (int i + 1)) = Inr s' \<and> m < s'"
        proof (cases i)
          case 0
          then show ?thesis using Inr IH(4) \<open>i + 1 < Suc n\<close> by simp
        next
          case (Suc j)
          then have "j < n" "j + 1 < n" using \<open>i + 1 < Suc n\<close> by simp_all
          with IH(3) obtain s' where "enc (q - 3 - 3 * (int j + 1)) = Inr s'" "m < s'" by blast
          then show ?thesis using Suc by (simp add: algebra_simps)
        qed
      qed
      have c: "case r of
                 Inl e \<Rightarrow> Suc n > 0 \<and> enc (q - 3 * int (Suc n)) = Inl e
               | Inr (q', s') \<Rightarrow> q' = q - 3 * int (Suc n) \<and> (s' \<le> m \<or> q' = 48)
                     \<and> (if Suc n = 0 then s' = s else enc q' = Inr s')"
        using IH(5) Inr by (auto simp: algebra_simps split: sum.splits prod.splits if_splits)
      show ?thesis
        using a b c IH(2) True by (intro exI [of _ "Suc n"] exI [of _ r]) simp
    qed
  qed
qed


text \<open>
  C2, as the code has it. For every image and every budget other than 0 the encoding loop
  ends after at most 15 encodings, at the qualities 90, 87, ... in turn; each encoding but
  the last gave a file above the budget; and at the end either the encoder raised, or the
  last file is within the budget, or the quality is 48, the first of 90, 87, ..., 51, 48
  that is not above 50. So a budget below every file size gives the encoding at quality 48.
\<close>

theorem jpeg_search_ends_at_48:
  assumes "max_jpeg_size_kb options = Some kb" "kb \<noteq> 0"
  shows "\<exists>n r. write_jpeg L path img options
                   = (map (\<lambda>i. WriteJpeg (90 - 3 * int i)) [0..<Suc n], r)
           \<and> n \<le> 14
           \<and> (\<forall>i<n. \<exists>s. imwrite_jpeg L path img (90 - 3 * int i) = Inr s \<and> kb * 1024 < s)
           \<and> (case r of
                 Inl e \<Rightarrow> imwrite_jpeg L path img (90 - 3 * int n) = Inl e
               | Inr (q, s) \<Rightarrow> q = 90 - 3 * int n \<and> imwrite_jpeg L path img q = Inr s
                     \<and> (s \<le> kb * 1024 \<or> q = 48))"
proof (cases "imwrite_jpeg L path img 90")
  case (Inl e)
  then show ?thesis
    using assms
    by (intro exI [of _ 0] exI [of _ "Inl e"]) (simp add: write_jpeg_def truthy_def call_Inl)
next
  case (Inr s0)
  let ?enc = "imwrite_jpeg L path img"
  let ?m = "kb * 1024"
  obtain n r where
    J: "jpeg_search ?enc ?m 90 s0 = (map (\<lambda>i. WriteJpeg (90 - 3 * (int i + 1))) [0..<n], r)"
       "3 * int n \<le> 90 - 48"
       "\<forall>i<n. i + 1 < n \<longrightarrow> (\<exists>s'. ?enc (90 - 3 * (int i + 1)) = Inr s' \<and> ?m < s')"
       "n > 0 \<longrightarrow> ?m < s0"
       "case r of
                 Inl e \<Rightarrow> n > 0 \<and> ?enc (90 - 3 * int n) = Inl e
               | Inr (q', s') \<Rightarrow> q' = 90 - 3 * int n \<and> (s' \<le> ?m \<or> q' = 48)
                     \<and> (if n = 0 then s' = s0 else ?enc q' = Inr s')"
    using jpeg_search_steps [of 90 ?enc ?m s0] by auto
  have evs: "WriteJpeg 90 # map (\<lambda>i. WriteJpeg (90 - 3 * (int i + 1))) [0..<n]
               = map (\<lambda>i. WriteJpeg (90 - 3 * int i)) [0..<Suc n]"
    by (subst map_upt_Suc) (simp add: algebra_simps)
  have a: "write_jpeg L path img options = (map (\<lambda>i. WriteJpeg (90 - 3 * int i)) [0..<Suc n], r)"
    using assms Inr J(1) evs by (simp add: write_jpeg_def truthy_def call_Inr)
  have b: "n \<le> 14" using J(2) by simp
  have c: "\<forall>i<n. \<exists>s. ?enc (90 - 3 * int i) = Inr s \<and> ?m < s"
  proof (intro allI impI)
    fix i assume "i < n"
    show "\<exists>s. ?enc (90 - 3 * int i) = Inr s \<and> ?m < s"
    proof (cases i)
      case 0
      then show ?thesis using Inr J(4) \<open>i < n\<close> by simp
    next
      case (Suc j)
      then have "j < n" "j + 1 < n" using \<open>i < n\<close> by simp_all
      with J(3) obtain s' where "?enc (90 - 3 * (int j + 1)) = Inr s'" "?m < s'" by blast
      then show ?thesis using Suc by simp
    qed
  qed
  have d: "case r of
                 Inl e \<Rightarrow> ?enc (90 - 3 * int n) = Inl e
               | Inr (q, s) \<Rightarrow> q = 90 - 3 * int n \<and> ?enc q = Inr s \<and> (s \<le> ?m \<or> q = 48)"
    using J(5) Inr by (auto split: sum.splits prod.splits if_splits)
  show ?thesis using a b c d by blast
qed

theorem jpeg_search_ends_at_48_witness:
  "max_jpeg_size_kb (default_options test_lib) = Some 99 \<and> (99 :: int) \<noteq> 0 \<and>
   (\<exists>n r. write_jpeg test_lib ''out/jpg/portrait.jpg'' test_image (default_options test_lib)
             = (map (\<lambda>i. WriteJpeg (90 - 3 * int i)) [0..<Suc n], r)
      \<and> n \<le> 14
      \<and> (\<forall>i<n. \<exists>s. imwrite_jpeg test_lib ''out/jpg/portrait.jpg'' test_image (90 - 3 * int i) = Inr s
                     \<and> 99 * 1024 < s)
      \<and> (case r of
            Inl e \<Rightarrow> imwrite_jpeg test_lib ''out/jpg/portrait.jpg'' test_image (90 - 3 * int n) = Inl e
          | Inr (q, s) \<Rightarrow> q = 90 - 3 * int n
                \<and> imwrite_jpeg test_lib ''out/jpg/portrait.jpg'' test_image q = Inr s
                \<and> (s \<le> 99 * 1024 \<or> q = 48)))"
proof -
  have h: "max_jpeg_size_kb (default_options test_lib) = Some 99"
    by (simp add: default_options_def)
  from jpeg_search_ends_at_48 [OF h, of test_lib "''out/jpg/portrait.jpg''" test_image] h
  show ?thesis by simp
qed

text \<open>
  C2 as stated fails: with files of 200000 bytes at every quality and the default budget
  of 99 kilobytes the loop ends at quality 48, not at the floor of 50, with the file still
  above the budget.
\<close>

theorem jpeg_floor_counterexample:
  "write_jpeg heavy_lib ''out/jpg/portrait.jpg'' test_image (default_options heavy_lib)
     = (map WriteJpeg [90, 87, 84, 81, 78, 75, 72, 69, 66, 63, 60, 57, 54, 51, 48],
        Inr (48, 200000))
   \<and> \<not> ((200000 :: int) \<le> 99 * 1024 \<or> (48 :: int) = 50)"
proof -
  have enc: "imwrite_jpeg heavy_lib = (\<lambda>path a quality. Inr 200000)"
    by (simp add: heavy_lib_def)
  show ?thesis
    by (simp add: write_jpeg_def truthy_def default_options_def enc jpeg_search.simps
          call_Inr_case ret_def)
qed

lemma write_jpeg_no_budget:
  assumes "max_jpeg_size_kb options = None \<or> max_jpeg_size_kb options = Some 0"
  shows "write_jpeg L path img options =
           ([WriteJpeg 90],
            case imwrite_jpeg L path img 90 of Inl e \<Rightarrow> Inl e | Inr fsize \<Rightarrow> Inr (90, fsize))"
  using assms
  by (cases "imwrite_jpeg L path img 90") (auto simp: write_jpeg_def truthy_def run_simps)

lemma save_output_jpeg_log:
  assumes "max_jpeg_size_kb options = None \<or> max_jpeg_size_kb options = Some 0"
  shows "filter is_jpeg_write (fst (save_output L img out_path options)) = [] \<and>
           (\<exists>e. snd (save_output L img out_path options) = Inl e)
         \<or> filter is_jpeg_write (fst (save_output L img out_path options)) = [WriteJpeg 90]"
proof -
  let ?png = "imwrite_png L (join L (dirname L out_path) (stem L out_path @ ''.png'')) img"
  let ?dirs = "makedirs L (join L (dirname L out_path) ''jpg'')"
  let ?jpg = "imwrite_jpeg L (join L (join L (dirname L out_path) ''jpg'') (stem L out_path @ ''.jpg''))
                (jpeg_flatten L img (background_color options)) 90"
  show ?thesis
    by (cases ?png; cases ?dirs; cases ?jpg)
       (auto simp: save_output_def Let_def write_jpeg_no_budget [OF assms] run_simps
          is_jpeg_write_def)
qed

lemma save_output_zero_is_none:
  "save_output L img out_path (options\<lparr>max_jpeg_size_kb := Some 0\<rparr>)
     = save_output L img out_path (options\<lparr>max_jpeg_size_kb := None\<rparr>)"
  by (simp add: save_output_def write_jpeg_def truthy_def)

text \<open>
  C10. When \<open>max_jpeg_size_kb\<close> is \<open>None\<close> or 0, the JPEG is encoded once, at quality
  90, and the loop is not entered; the log of \<open>_save_output\<close> then holds that one
  encoding, or none when the PNG or the directory step raised first; and a budget of 0 gives
  in every respect what no budget gives.
\<close>

theorem no_budget_single_encoding:
  assumes "max_jpeg_size_kb options = None \<or> max_jpeg_size_kb options = Some 0"
  shows "write_jpeg L path img options =
           ([WriteJpeg 90],
            case imwrite_jpeg L path img 90 of Inl e \<Rightarrow> Inl e | Inr fsize \<Rightarrow> Inr (90, fsize))
         \<and> (filter is_jpeg_write (fst (save_output L img out_path options)) = [] \<and>
               (\<exists>e. snd (save_output L img out_path options) = Inl e)
             \<or> filter is_jpeg_write (fst (save_output L img out_path options)) = [WriteJpeg 90])
         \<and> save_output L img out_path (options\<lparr>max_jpeg_size_kb := Some 0\<rparr>)
             = save_output L img out_path (options\<lparr>max_jpeg_size_kb := None\<rparr>)"
  using write_jpeg_no_budget [OF assms] save_output_jpeg_log [OF assms] save_output_zero_is_none
  by blast

theorem no_budget_single_encoding_witness:
  "(max_jpeg_size_kb ((default_options test_lib)\<lparr>max_jpeg_size_kb := Some 0\<rparr>) = None
      \<or> max_jpeg_size_kb ((default_options test_lib)\<lparr>max_jpeg_size_kb := Some 0\<rparr>) = Some 0)
   \<and> write_jpeg test_lib ''out/jpg/portrait.jpg'' test_image
        ((default_options test_lib)\<lparr>max_jpeg_size_kb := Some 0\<rparr>)
       = ([WriteJpeg 90], Inr (90, 135000))
   \<and> filter is_jpeg_write
        (fst (save_output test_lib test_image ''out/portrait.png''
                ((default_options test_lib)\<lparr>max_jpeg_size_kb := Some 0\<rparr>)))
       = [WriteJpeg 90]"
proof -
  let ?o = "(default_options test_lib)\<lparr>max_jpeg_size_kb := Some 0\<rparr>"
  have h: "max_jpeg_size_kb ?o = None \<or> max_jpeg_size_kb ?o = Some 0"
    by simp
  have ok: "\<exists>r. snd (save_output test_lib test_image ''out/portrait.png'' ?o) = Inr r"
    by (simp add: save_output_def write_jpeg_def truthy_def default_options_def test_lib_fields
          run_simps Let_def)
  from no_budget_single_encoding
         [OF h, of test_lib "''out/jpg/portrait.jpg''" test_image "''out/portrait.png''"]
       h ok
  show ?thesis by (auto simp: test_lib_fields)
qed

section \<open>Alignment and the second detection\<close>

lemma align_stage_redetects:
  assumes "get_landmarks L fd img r0 = Inr (Some lm)"
    and "align_face L nobg lm = Inr rotated"
    and "detect_face L fd rotated = Inr new"
  shows "align_stage L fd img nobg r0
           = ([Landmarks, Align, Detect], Inr (rotated, region_after r0 new))"
proof -
  have "has_predictor fd"
    using assms(1) by (auto simp: get_landmarks_def has_predictor_def split: option.splits)
  then show ?thesis
    using assms
    by (cases new) (simp_all add: align_stage_def call_Inr ret_def region_after_def)
qed

lemma process_try_reaches_crop:
  assumes "imread L input_path = Some img0"
    and "detect_face L (face_detector_c self) (restored L self options img0) = Inr (Some r0)"
    and "remove_background L (background_remover self) (restored L self options img0) = Inr nobg"
    and "get_landmarks L (face_detector_c self) (restored L self options img0) r0 = Inr (Some lm)"
    and "align_face L nobg lm = Inr rotated"
    and "detect_face L (face_detector_c self) rotated = Inr new"
  shows "\<exists>rest. fst (process_try L self input_path out_path options)
           = Load # restore_log self options
               @ [Detect, Segment, Landmarks, Align, Detect, Crop (region_after r0 new)] @ rest"
  using assms
  by (simp add: process_try_def call_Inr restore_step Let_def seq_Inr
        align_stage_redetects [OF assms(4,5,6)])

lemma process_try_position:
  assumes "imread L input_path = Some img0"
    and "detect_face L (face_detector_c self) (restored L self options img0) = Inr (Some r0)"
    and "snd (process_try L self input_path out_path options) = Inr (Done r)"
  shows "face_position r = Some (position_of r0) \<and> face_detected r \<and> face_count r = 1"
  using assms
  by (auto simp: process_try_def call_Inr restore_step Let_def snd_seq snd_call snd_ret
      split: prod.splits if_splits)

lemma fst_process_image:
  "fst (process_image L self input_path out_path options)
     = fst (process_try L self input_path out_path (or_default L options))"
  by (simp add: process_image_def Let_def process_try_ignores_stats
      split: prod.splits sum.splits outcome.splits)

lemma process_image_success:
  assumes "success (fst (snd (process_image L self input_path out_path options)))"
  shows "snd (process_try L self input_path out_path (or_default L options))
           = Inr (Done (fst (snd (process_image L self input_path out_path options))))"
  using assms
  by (auto simp: process_image_def Let_def process_try_ignores_stats new_result_def
      split: prod.splits sum.splits outcome.splits)


lemma turning_fields:
  "rnd (turning_lib g) = (\<lambda>x. x)"
  "imread (turning_lib g) ''portrait.jpg'' = Some test_image"
  "bgr2rgb (turning_lib g) = Inr"
  "rgba2bgra (turning_lib g) = Inr"
  "bgr2gray (turning_lib g) = (\<lambda>a. Inr (plane a 0))"
  "lanczos4 (turning_lib g) = (\<lambda>a dsize. Inr (nearest a dsize))"
  "warp_rotate (turning_lib g) = (\<lambda>a center dy dx. Inr (turned g a))"
  "dirname (turning_lib g) = (\<lambda>path. ''out'')"
  "stem (turning_lib g) = (\<lambda>path. ''portrait'')"
  "join (turning_lib g) = (\<lambda>dir name. dir @ ''/'' @ name)"
  "makedirs (turning_lib g) = (\<lambda>path. Inr ())"
  "imwrite_jpeg (turning_lib g) = (\<lambda>path a quality. Inr (1500 * quality))"
  by (simp_all add: turning_lib_def test_lib_def)

lemma aligning_fields:
  "face_detector_c aligning_processor = aligning_detector"
  "face_enhancer aligning_processor = no_enhancer"
  "background_remover aligning_processor = \<lparr>session = (\<lambda>a. Inr (with_alpha a))\<rparr>"
  "stats aligning_processor = zero_stats"
  by (simp_all add: aligning_processor_def test_processor_def)

lemma plain_restored: "restored L aligning_processor plain_options a = a"
  by (simp add: restored_def plain_options_def)

lemma plain_restore_log: "restore_log aligning_processor plain_options = []"
  by (simp add: restore_log_def plain_options_def)

lemma t_detect: "detect_face (turning_lib g) aligning_detector test_image = Inr (Some test_face)"
  by (simp add: detect_face_def turning_fields aligning_detector_def test_image_def plane_def)

lemma t_segment:
  "remove_background (turning_lib g) \<lparr>session = (\<lambda>a. Inr (with_alpha a))\<rparr> test_image
     = Inr (with_alpha test_image)"
  by (simp add: remove_background_def turning_fields)

lemma t_landmarks:
  "get_landmarks (turning_lib g) aligning_detector test_image test_face
     = Inr (Some (replicate 68 (0, 0)))"
  by (simp add: get_landmarks_def aligning_detector_def turning_fields)

lemma t_align:
  "align_face (turning_lib g) (with_alpha test_image) (replicate 68 (0, 0))
     = Inr (turned g (with_alpha test_image))"
  by (simp add: align_face_def parts_def turning_fields Let_def)

lemma t_redetect:
  "detect_face (turning_lib g) aligning_detector (turned g (with_alpha test_image))
     = Inr (if g 100 = 0 then None else if g 100 = 100 then Some test_face else Some moved_face)"
  by (simp add: detect_face_def turning_fields aligning_detector_def test_image_def plane_def
        with_alpha_def turned_def)

lemma t_crop:
  "r = test_face \<or> r = moved_face \<Longrightarrow>
   rows (crop_face (turning_lib g) (turned g (with_alpha test_image)) r 0)
     = cols (crop_face (turning_lib g) (turned g (with_alpha test_image)) r 0)
   \<and> rows (crop_face (turning_lib g) (turned g (with_alpha test_image)) r 0) \<in> {1, 2}
   \<and> chans (crop_face (turning_lib g) (turned g (with_alpha test_image)) r 0) = 4"
  by (auto simp: crop_face_def turning_fields Let_def rect_width_def rect_height_def is_empty_def
        trunc_def py_slice_def slice_index_def test_face_def moved_face_def turned_def
        with_alpha_def test_image_def)

lemma t_resize:
  "rows a = cols a \<Longrightarrow> rows a \<in> {1, 2} \<Longrightarrow> chans a = 4 \<Longrightarrow>
   \<exists>final. resize_with_padding (turning_lib g) a (2, 2) (240, 240, 240) False = Inr final"
  by (auto simp: resize_with_padding_def truediv_def andthen_def turning_fields trunc_def
        cv2_resize_def nearest_def new_canvas_def Let_def py_slice_def slice_index_def
        composite_block_def broadcastable_def)

lemma t_save:
  "\<exists>r. save_output (turning_lib g) a ''out/portrait.png'' plain_options
         = ([MakeDirs, WriteJpeg 90], Inr r)"
  by (simp add: save_output_def write_jpeg_def truthy_def plain_options_def turning_fields
        eval_simps Let_def)

lemma turning_run:
  assumes "new = (if g 100 = 0 then None else if g 100 = 100 then Some test_face else Some moved_face)"
  shows "\<exists>r. process_try (turning_lib g) aligning_processor ''portrait.jpg'' ''out/portrait.png''
                plain_options
              = ([Load, Detect, Segment, Landmarks, Align, Detect, Crop (region_after test_face new),
                  Resize, MakeDirs, WriteJpeg 90], Inr (Done r))"
proof -
  let ?L = "turning_lib g"
  let ?rot = "turned g (with_alpha test_image)"
  let ?r = "region_after test_face new"
  have r: "?r = test_face \<or> ?r = moved_face"
    using assms by (simp add: region_after_def)
  have stage: "align_stage ?L aligning_detector test_image (with_alpha test_image) test_face
                 = ([Landmarks, Align, Detect], Inr (?rot, ?r))"
    using align_stage_redetects [OF t_landmarks t_align t_redetect, of g] assms by simp
  obtain final where final:
    "resize_with_padding ?L (crop_face ?L ?rot ?r 0) (2, 2) (240, 240, 240) False = Inr final"
    using t_resize t_crop [OF r] by blast
  obtain res where res:
    "save_output ?L final ''out/portrait.png'' plain_options = ([MakeDirs, WriteJpeg 90], Inr res)"
    using t_save by blast
  have opts: "enhance_face plain_options = False" "enhance_photo plain_options = False"
    "use_oval_mask plain_options = False" "face_margin plain_options = 0"
    "width plain_options = 2" "height plain_options = 2"
    "background_color plain_options = (240, 240, 240)"
    by (simp_all add: plain_options_def)
  show ?thesis
    by (simp add: process_try_def turning_fields aligning_fields opts t_detect t_segment stage
          final res eval_simps Let_def)
qed


lemma turning_outcome:
  assumes "new = (if g 100 = 0 then None else if g 100 = 100 then Some test_face else Some moved_face)"
  shows "fst (process_image (turning_lib g) aligning_processor ''portrait.jpg''
                ''out/portrait.png'' (Some plain_options))
           = [Load, Detect, Segment, Landmarks, Align, Detect, Crop (region_after test_face new),
              Resize, MakeDirs, WriteJpeg 90]
         \<and> success (fst (snd (process_image (turning_lib g) aligning_processor ''portrait.jpg''
                ''out/portrait.png'' (Some plain_options))))"
proof -
  obtain r where r:
    "process_try (turning_lib g) aligning_processor ''portrait.jpg'' ''out/portrait.png''
       plain_options
     = ([Load, Detect, Segment, Landmarks, Align, Detect, Crop (region_after test_face new),
         Resize, MakeDirs, WriteJpeg 90], Inr (Done r))"
    using turning_run [of new g] assms by blast
  have "success r"
    using r by (rule process_try_success_pair)
  then show ?thesis
    using r by (simp add: process_image_def Let_def or_default_def process_try_ignores_stats)
qed

text \<open>
  C7. Suppose the image loads and the first detection finds the region \<open>r0\<close>. When
  the segmented image is rotated from the landmarks, the face is detected again on the
  rotated image; the region passed to the crop is the new one when there is one and
  \<open>r0\<close> when there is none, and in both cases the pipeline goes on to the crop. In every
  successful result the face position is that of \<open>r0\<close>, the region of the first
  detection, with the face count 1.
\<close>

theorem redetection_after_alignment:
  assumes "imread L input_path = Some img0"
    and "img = restored L self (or_default L options) img0"
    and "detect_face L (face_detector_c self) img = Inr (Some r0)"
  shows "(remove_background L (background_remover self) img = Inr nobg
          \<and> get_landmarks L (face_detector_c self) img r0 = Inr (Some lm)
          \<and> align_face L nobg lm = Inr rotated
          \<and> detect_face L (face_detector_c self) rotated = Inr new
          \<longrightarrow> align_stage L (face_detector_c self) img nobg r0
                = ([Landmarks, Align, Detect], Inr (rotated, region_after r0 new))
              \<and> (\<exists>rest. fst (process_image L self input_path out_path options)
                    = Load # restore_log self (or_default L options)
                        @ [Detect, Segment, Landmarks, Align, Detect, Crop (region_after r0 new)]
                        @ rest))
         \<and> (success (fst (snd (process_image L self input_path out_path options)))
              \<longrightarrow> face_position (fst (snd (process_image L self input_path out_path options)))
                    = Some (position_of r0)
                  \<and> face_detected (fst (snd (process_image L self input_path out_path options)))
                  \<and> face_count (fst (snd (process_image L self input_path out_path options))) = 1)
         \<and> region_after r0 None = r0 \<and> (\<forall>r1. region_after r0 (Some r1) = r1)"
proof (intro conjI impI allI)
  assume h: "remove_background L (background_remover self) img = Inr nobg
          \<and> get_landmarks L (face_detector_c self) img r0 = Inr (Some lm)
          \<and> align_face L nobg lm = Inr rotated
          \<and> detect_face L (face_detector_c self) rotated = Inr new"
  then have h1: "remove_background L (background_remover self) img = Inr nobg"
    and h2: "get_landmarks L (face_detector_c self) img r0 = Inr (Some lm)"
    and h3: "align_face L nobg lm = Inr rotated"
    and h4: "detect_face L (face_detector_c self) rotated = Inr new"
    by simp_all
  show "align_stage L (face_detector_c self) img nobg r0
                = ([Landmarks, Align, Detect], Inr (rotated, region_after r0 new))"
    by (rule align_stage_redetects [OF h2 h3 h4])
  show "\<exists>rest. fst (process_image L self input_path out_path options)
                    = Load # restore_log self (or_default L options)
                        @ [Detect, Segment, Landmarks, Align, Detect, Crop (region_after r0 new)]
                        @ rest"
    unfolding fst_process_image
    by (rule process_try_reaches_crop
              [OF assms(1) assms(3) [unfolded assms(2)] h1 [unfolded assms(2)]
                  h2 [unfolded assms(2)] h3 h4])
next
  assume "success (fst (snd (process_image L self input_path out_path options)))"
  then have "snd (process_try L self input_path out_path (or_default L options))
               = Inr (Done (fst (snd (process_image L self input_path out_path options))))"
    by (rule process_image_success)
  from process_try_position [OF assms(1) assms(3) [unfolded assms(2)] this]
  show "face_position (fst (snd (process_image L self input_path out_path options)))
          = Some (position_of r0)"
    and "face_detected (fst (snd (process_image L self input_path out_path options)))"
    and "face_count (fst (snd (process_image L self input_path out_path options))) = 1"
    by simp_all
qed (simp_all add: region_after_def)


theorem redetection_after_alignment_witness:
  "(let L = turning_lib (\<lambda>v. v + 1);
        result = process_image L aligning_processor ''portrait.jpg'' ''out/portrait.png''
                   (Some plain_options)
    in imread L ''portrait.jpg'' = Some test_image
       \<and> detect_face L (face_detector_c aligning_processor) test_image = Inr (Some test_face)
       \<and> detect_face L (face_detector_c aligning_processor)
            (turned (\<lambda>v. v + 1) (with_alpha test_image)) = Inr (Some moved_face)
       \<and> fst result = [Load, Detect, Segment, Landmarks, Align, Detect, Crop moved_face,
                        Resize, MakeDirs, WriteJpeg 90]
       \<and> success (fst (snd result))
       \<and> face_position (fst (snd result))
           = Some \<lparr>pos_x = 0, pos_y = 0, pos_width = 2, pos_height = 2\<rparr>)
   \<and> (let L = turning_lib (\<lambda>v. 0);
          result = process_image L aligning_processor ''portrait.jpg'' ''out/portrait.png''
                     (Some plain_options)
      in imread L ''portrait.jpg'' = Some test_image
         \<and> detect_face L (face_detector_c aligning_processor) test_image = Inr (Some test_face)
         \<and> detect_face L (face_detector_c aligning_processor)
              (turned (\<lambda>v. 0) (with_alpha test_image)) = Inr None
         \<and> fst result = [Load, Detect, Segment, Landmarks, Align, Detect, Crop test_face,
                          Resize, MakeDirs, WriteJpeg 90]
         \<and> success (fst (snd result))
         \<and> face_position (fst (snd result))
             = Some \<lparr>pos_x = 0, pos_y = 0, pos_width = 2, pos_height = 2\<rparr>)"
proof -
  have pos: "position_of test_face = \<lparr>pos_x = 0, pos_y = 0, pos_width = 2, pos_height = 2\<rparr>"
    by (simp add: position_of_def test_face_def rect_width_def rect_height_def is_empty_def)
  have img: "test_image
               = restored (turning_lib g) aligning_processor
                   (or_default (turning_lib g) (Some plain_options)) test_image" for g
    by (simp add: or_default_def plain_restored)
  have first: "detect_face (turning_lib g) (face_detector_c aligning_processor) test_image
                 = Inr (Some test_face)" for g
    by (simp add: aligning_fields t_detect)
  have stages:
    "remove_background (turning_lib g) (background_remover aligning_processor) test_image
       = Inr (with_alpha test_image)
     \<and> get_landmarks (turning_lib g) (face_detector_c aligning_processor) test_image test_face
       = Inr (Some (replicate 68 (0, 0)))
     \<and> align_face (turning_lib g) (with_alpha test_image) (replicate 68 (0, 0))
       = Inr (turned g (with_alpha test_image))
     \<and> detect_face (turning_lib g) (face_detector_c aligning_processor)
         (turned g (with_alpha test_image))
       = Inr (if g 100 = 0 then None else if g 100 = 100 then Some test_face else Some moved_face)"
    for g
    by (simp add: aligning_fields t_segment t_landmarks t_align t_redetect)
  note a = redetection_after_alignment
             [OF turning_fields(2) img first,
              of "\<lambda>v. v + 1" "with_alpha test_image" "replicate 68 (0, 0)"
                 "turned (\<lambda>v. v + 1) (with_alpha test_image)" "Some moved_face"
                 "''out/portrait.png''"]
  note b = redetection_after_alignment
             [OF turning_fields(2) img first,
              of "\<lambda>v. 0" "with_alpha test_image" "replicate 68 (0, 0)"
                 "turned (\<lambda>v. 0) (with_alpha test_image)" None "''out/portrait.png''"]
  from a b stages [of "\<lambda>v. v + 1"] stages [of "\<lambda>v. 0"] first
    turning_outcome [of "Some moved_face" "\<lambda>v. v + 1"] turning_outcome [of None "\<lambda>v. 0"]
  show ?thesis
    by (simp add: Let_def pos turning_fields region_after_def)
qed


end
